theory Spec2Isabelle
  imports Complex_Main "HOL-Library.Word"
begin

unbundle bit_operations_syntax

section \<open>Data model (types.ts)\<close>

text \<open>
  The forensic library is TypeScript. Its data is modelled as follows.
  \<^item> A \<open>Uint8Array\<close> or \<open>Uint8ClampedArray\<close> is a list of 8-bit words. Where the source
    compares a byte of the raw file with a constant, the read is \<open>byte_at\<close>: a typed-array
    read outside the array yields \<open>undefined\<close>, which is equal to no number, and \<open>byte_at\<close>
    returns \<open>None\<close> there.
  \<^item> Reads of the pixel buffer are written \<open>d ! i\<close>. An \<open>ImageData\<close> holds four bytes per
    pixel and the loader gives an image file the dimensions of its pixel buffer
    (\<open>well_formed\<close> below); on such a file every read the checks make is in range.
  \<^item> Counts, sizes and pixel coordinates are natural numbers; an integer that can be
    negative is an \<open>int\<close>.
  \<^item> Every other JavaScript \<open>number\<close> is modelled as an exact real number: the rounding
    of IEEE doubles and of \<open>Float32Array\<close> stores is not modelled.
  \<^item> Strings are HOL strings; a character outside ASCII is written as its UTF-8 bytes.
  \<^item> A function of the source that can throw, or a promise that can reject, returns a sum
    type with the thrown value on the left.
\<close>

type_synonym byte = "8 word"

datatype CheckStatus = Ok | Warn | Fail | Info

text \<open>A value of a details map: \<open>string | number | boolean | null\<close>.\<close>

datatype detail = DString string | DNumber real | DBoolean bool | DNull

record region =
  region_x :: nat
  region_y :: nat
  region_width :: nat
  region_height :: nat
  region_label :: "string option"

text \<open>\<open>ImageData\<close>: RGBA bytes, four per pixel, row by row.\<close>

record image_data =
  img_width :: nat
  img_height :: nat
  img_data :: "byte list"

text \<open>
  \<open>CheckResult\<close>. The details object keeps its keys in insertion order and is an
  association list. An absent optional field (\<open>overlay\<close>, \<open>regions\<close>) is \<open>None\<close>.
\<close>

record check_result =
  check_id :: string
  check_name :: string
  status :: CheckStatus
  summary :: string
  details :: "(string \<times> detail) list"
  confidence :: real
  check_notes :: string
  overlay :: "image_data option"
  regions :: "region list option"

text \<open>
  \<open>ImageFile\<close>: the \<open>File\<close> object's name, size and declared type, the raw bytes, the
  decoded pixels and the canvas they were drawn on (a pixel buffer as well). The data URL
  and the drawing context are read by none of the checks and are left out.
\<close>

record image_file =
  file_name :: string
  file_size :: nat
  file_type :: string
  arrayBuffer :: "byte list"
  width :: nat
  height :: nat
  imageData :: image_data
  canvas :: image_data

record summary_counts =
  okCount :: nat
  warnCount :: nat
  failCount :: nat
  infoCount :: nat

datatype overall_status = Clean | Review | Suspicious

record forensic_report =
  filename :: string
  fileSize :: nat
  dimensions :: "nat \<times> nat"
  mimeType :: string
  timestamp :: string
  checks :: "check_result list"
  overallStatus :: overall_status
  report_summary :: summary_counts

text \<open>A thrown value: an \<open>Error\<close> object with its message, or anything else.\<close>

datatype thrown = ErrorObject string | OtherValue

text \<open>
  A number that may be \<open>NaN\<close>: the JPEG quality handed to the social-media heuristic is
  the result of \<open>parseInt\<close>, an integer or \<open>NaN\<close>.
\<close>

datatype int_or_nan = NaN | Num int

section \<open>Numeric and string primitives\<close>

definition digit_char :: "nat \<Rightarrow> char" where
  "digit_char d = ''0123456789abcdef'' ! d"

text \<open>Decimal digits of a natural number, as a template literal prints it.\<close>

fun show_nat :: "nat \<Rightarrow> string" where
  "show_nat n = (if n < 10 then [digit_char n] else show_nat (n div 10) @ [digit_char (n mod 10)])"

declare show_nat.simps [simp del]

definition show_int :: "int \<Rightarrow> string" where
  "show_int i = (if i < 0 then ''-'' @ show_nat (nat (- i)) else show_nat (nat i))"

text \<open>\<open>Number.prototype.toString(16)\<close> of an integer.\<close>

fun hex_nat :: "nat \<Rightarrow> string" where
  "hex_nat n = (if n < 16 then [digit_char n] else hex_nat (n div 16) @ [digit_char (n mod 16)])"

declare hex_nat.simps [simp del]

definition toString16 :: "int \<Rightarrow> string" where
  "toString16 i = (if i < 0 then ''-'' @ hex_nat (nat (- i)) else hex_nat (nat i))"

definition pad_left :: "nat \<Rightarrow> string \<Rightarrow> string" where
  "pad_left d s = replicate (d - length s) CHR ''0'' @ s"

text \<open>
  \<open>Number.prototype.toFixed(d)\<close> on a real number below \<open>10^21\<close>: the sign, then the
  nearest multiple of \<open>10^-d\<close> (the larger one on a tie) in decimal digits.
\<close>

definition toFixed :: "real \<Rightarrow> nat \<Rightarrow> string" where
  "toFixed x d =
    (let n = nat \<lfloor>\<bar>x\<bar> * 10 ^ d + 1 / 2\<rfloor>
     in (if x < 0 then ''-'' else []) @ show_nat (n div 10 ^ d) @
        (if d = 0 then [] else ''.'' @ pad_left d (show_nat (n mod 10 ^ d))))"

text \<open>\<open>Math.round\<close>: the nearest integer, the larger one on a tie.\<close>

definition Math_round :: "real \<Rightarrow> int" where
  "Math_round x = \<lfloor>x + 1 / 2\<rfloor>"

text \<open>A store into a \<open>Uint8ClampedArray\<close> of an integer: clamped to 0..255.\<close>

definition clamp_byte :: "int \<Rightarrow> byte" where
  "clamp_byte i = word_of_int (max 0 (min 255 i))"

text \<open>\<open>mean\<close> and \<open>standardDeviation\<close> of utils.ts (\<open>reduce\<close> is a left fold).\<close>

definition mean :: "real list \<Rightarrow> real" where
  "mean vs = (if length vs = 0 then 0 else foldl (\<lambda>a b. a + b) 0 vs / real (length vs))"

definition standardDeviation :: "real list \<Rightarrow> real" where
  "standardDeviation vs =
    (if length vs = 0 then 0
     else let m = foldl (\<lambda>a b. a + b) 0 vs / real (length vs);
              squaredDiffs = map (\<lambda>v. (v - m) ^ 2) vs
          in sqrt (foldl (\<lambda>a b. a + b) 0 squaredDiffs / real (length vs)))"

text \<open>The luminance of the pixel whose red byte stands at index \<open>idx\<close>.\<close>

definition luminance :: "byte list \<Rightarrow> nat \<Rightarrow> real" where
  "luminance d idx =
    0.299 * real (unat (d ! idx)) + 0.587 * real (unat (d ! (idx + 1))) +
    0.114 * real (unat (d ! (idx + 2)))"

text \<open>The grayscale conversion loop the pixel passes start with.\<close>

definition grayscale :: "byte list \<Rightarrow> nat \<Rightarrow> nat \<Rightarrow> real list" where
  "grayscale d w h = map (\<lambda>i. luminance d (i * 4)) [0..<w * h]"

section \<open>Byte sniffer (utils.ts)\<close>

definition byte_at :: "byte list \<Rightarrow> nat \<Rightarrow> byte option" where
  "byte_at bytes i = (if i < length bytes then Some (bytes ! i) else None)"

text \<open>
  The signature table \<open>FILE_SIGNATURES\<close> of types.ts: mime type, signature bytes and the
  offset at which they stand. The WebP entry of the source holds only \<open>RIFF\<close> at offset 0,
  with the comment that \<open>WEBP\<close> has to be checked at offset 8.
\<close>

definition FILE_SIGNATURES :: "(string \<times> byte list) list" where
  "FILE_SIGNATURES =
    [(''image/jpeg'', [0xFF, 0xD8, 0xFF]),
     (''image/png'', [0x89, 0x50, 0x4E, 0x47, 0x0D, 0x0A, 0x1A, 0x0A]),
     (''image/gif'', [0x47, 0x49, 0x46, 0x38]),
     (''image/webp'', [0x52, 0x49, 0x46, 0x46])]"

definition WEBP_TAG :: "byte list" where
  "WEBP_TAG = [0x57, 0x45, 0x42, 0x50]"

text \<open>A buffer carries a byte sequence at an offset.\<close>

definition has_bytes_at :: "byte list \<Rightarrow> nat \<Rightarrow> byte list \<Rightarrow> bool" where
  "has_bytes_at bytes off sig = (off + length sig \<le> length bytes \<and> take (length sig) (drop off bytes) = sig)"

text \<open>
  A buffer matches the signature of a mime type, as the table and the byte sniffer's
  description give it: the table's bytes at offset 0, and for WebP also \<open>WEBP\<close> at offset 8.
\<close>

definition matches_signature :: "byte list \<Rightarrow> string \<Rightarrow> bool" where
  "matches_signature bytes mime =
    (case map_of FILE_SIGNATURES mime of
       None \<Rightarrow> False
     | Some sig \<Rightarrow>
         has_bytes_at bytes 0 sig \<and>
         (if mime = ''image/webp'' then has_bytes_at bytes 8 WEBP_TAG else True))"

definition detectFileType :: "byte list \<Rightarrow> string option" where
  "detectFileType bytes =
    (if byte_at bytes 0 = Some 0xFF \<and> byte_at bytes 1 = Some 0xD8 \<and> byte_at bytes 2 = Some 0xFF
     then Some ''image/jpeg''
     else if byte_at bytes 0 = Some 0x89 \<and> byte_at bytes 1 = Some 0x50 \<and>
             byte_at bytes 2 = Some 0x4E \<and> byte_at bytes 3 = Some 0x47
     then Some ''image/png''
     else if byte_at bytes 0 = Some 0x47 \<and> byte_at bytes 1 = Some 0x49 \<and>
             byte_at bytes 2 = Some 0x46 \<and> byte_at bytes 3 = Some 0x38
     then Some ''image/gif''
     else if byte_at bytes 0 = Some 0x52 \<and> byte_at bytes 1 = Some 0x49 \<and>
             byte_at bytes 2 = Some 0x46 \<and> byte_at bytes 3 = Some 0x46
     then (if byte_at bytes 8 = Some 0x57 \<and> byte_at bytes 9 = Some 0x45 \<and>
              byte_at bytes 10 = Some 0x42 \<and> byte_at bytes 11 = Some 0x50
           then Some ''image/webp''
           else None)
     else None)"

section \<open>Compression checks (compressionChecks.ts)\<close>

text \<open>The multiplication sign of two strings of the source.\<close>

definition times_sign :: string where
  "times_sign = [CHR 0xC3, CHR 0x97]"

subsection \<open>JPEG quality from the quantization table\<close>

text \<open>An operand of a bit operation: a byte of the buffer, or 0 for \<open>undefined\<close>.\<close>

definition byte_num :: "byte list \<Rightarrow> nat \<Rightarrow> int" where
  "byte_num bytes i = (case byte_at bytes i of None \<Rightarrow> 0 | Some b \<Rightarrow> uint b)"

text \<open>
  The scan loop of \<open>estimateJpegQuality\<close>, from index \<open>i\<close> on. A \<open>continue\<close> is the
  recursive call at \<open>i + 1\<close>. The second table entry \<open>q1\<close> is read and never used.
\<close>

function estimateJpegQuality_from :: "byte list \<Rightarrow> nat \<Rightarrow> int option" where
  "estimateJpegQuality_from bytes i =
    (if int i < int (length bytes) - 70 then
       (if byte_at bytes i = Some 0xFF \<and> byte_at bytes (i + 1) = Some 0xDB then
          (let len = push_bit 8 (byte_num bytes (i + 2)) OR byte_num bytes (i + 3) in
           if len \<ge> 67 then
             (let tableStart = i + 5 in
              case byte_at bytes tableStart of
                None \<Rightarrow> estimateJpegQuality_from bytes (i + 1)
              | Some q0b \<Rightarrow>
                 (let q0 = uint q0b in
                  if q0 = 0 then estimateJpegQuality_from bytes (i + 1)
                  else (let quality =
                              (if q0 < 2 then 98
                               else if q0 < 10 then Math_round (100 - real_of_int q0 * 2)
                               else if q0 < 50 then Math_round (5000 / real_of_int q0)
                               else Math_round (200 - real_of_int q0 * 2))
                        in Some (max 1 (min 100 quality)))))
           else estimateJpegQuality_from bytes (i + 1))
        else estimateJpegQuality_from bytes (i + 1))
     else None)"
  by pat_completeness auto
termination
  by (relation "measure (\<lambda>(bytes, i). length bytes - i)") auto

declare estimateJpegQuality_from.simps [simp del]

definition estimateJpegQuality :: "byte list \<Rightarrow> int option" where
  "estimateJpegQuality bytes = estimateJpegQuality_from bytes 0"

definition getQualityLevel :: "int \<Rightarrow> string" where
  "getQualityLevel quality =
    (if quality \<ge> 90 then ''High''
     else if quality \<ge> 75 then ''Good''
     else if quality \<ge> 50 then ''Medium''
     else ''Low'')"

definition checkJpegQuality :: "image_file \<Rightarrow> check_result option" where
  "checkJpegQuality file =
    (if detectFileType (arrayBuffer file) \<noteq> Some ''image/jpeg'' then None
     else
       case estimateJpegQuality (arrayBuffer file) of
         None \<Rightarrow>
           Some \<lparr>check_id = ''jpeg-quality'',
                 check_name = ''JPEG Quality Analysis'',
                 status = Info,
                 summary = ''Could not determine JPEG quality'',
                 details = [(''Format'', DString ''JPEG''),
                            (''Quality Estimate'', DString ''Unknown'')],
                 confidence = 0.3,
                 check_notes = ''Unable to extract quantization tables from this JPEG file.'',
                 overlay = None,
                 regions = None\<rparr>
       | Some qualityEstimate \<Rightarrow>
           (let (st, nt) =
                  (if qualityEstimate < 50 then
                     (Warn, ''Low quality JPEG. Heavy compression may obscure forensic analysis and suggests multiple resaves.'')
                   else if qualityEstimate < 75 then
                     (Info, ''Medium quality JPEG. Some compression artifacts may be present.'')
                   else if qualityEstimate < 90 then
                     (Info, ''Good quality JPEG. Minimal compression artifacts expected.'')
                   else
                     (Info, ''High quality JPEG. Very little compression artifact expected.''))
            in Some \<lparr>check_id = ''jpeg-quality'',
                     check_name = ''JPEG Quality Analysis'',
                     status = st,
                     summary = ''Estimated quality: '' @ show_int qualityEstimate @ ''%'',
                     details = [(''Format'', DString ''JPEG''),
                                (''Quality Estimate'', DString (show_int qualityEstimate @ ''%'')),
                                (''Quality Level'', DString (getQualityLevel qualityEstimate))],
                     confidence = 0.6,
                     check_notes = nt,
                     overlay = None,
                     regions = None\<rparr>))"

subsection \<open>Block boundaries (double compression)\<close>

text \<open>
  \<open>analyzeBlockBoundaries\<close>: the two lists the pixel loop fills are the gradients of the
  inner pixels, in scan order, that lie on a block boundary, and of those at offset (4, 4).
\<close>

definition analyzeBlockBoundaries :: "image_data \<Rightarrow> real" where
  "analyzeBlockBoundaries img =
    (let w = img_width img; h = img_height img in
     if w < 16 \<or> h < 16 then 0
     else
       let gray = grayscale (img_data img) w h;
           pixels = concat (map (\<lambda>y. map (\<lambda>x. (x, y)) [1..<w - 1]) [1..<h - 1]);
           gradient = (\<lambda>(x, y). let idx = y * w + x
                                 in \<bar>gray ! idx - gray ! (idx - 1)\<bar> + \<bar>gray ! idx - gray ! (idx - w)\<bar>);
           boundaryGradients =
             map gradient (filter (\<lambda>(x, y). x mod 8 = 0 \<or> y mod 8 = 0) pixels);
           innerGradients =
             map gradient
               (filter (\<lambda>(x, y). \<not> (x mod 8 = 0 \<or> y mod 8 = 0) \<and> x mod 8 = 4 \<and> y mod 8 = 4) pixels)
       in if length boundaryGradients = 0 \<or> length innerGradients = 0 then 0
          else
            let boundaryMean = mean boundaryGradients;
                innerMean = mean innerGradients;
                ratio = (if innerMean > 0 then boundaryMean / innerMean else 0)
            in min 1 (max 0 ((ratio - 0.8) / 1.2)))"

definition checkDoubleCompression :: "image_file \<Rightarrow> check_result option" where
  "checkDoubleCompression file =
    (if detectFileType (arrayBuffer file) \<noteq> Some ''image/jpeg'' then None
     else
       let boundaryStrength = analyzeBlockBoundaries (imageData file);
           (st, sm, nt) =
             (if boundaryStrength > 0.7 then
                (Warn, ''Strong block boundary artifacts detected'',
                 ''EXPERIMENTAL: Pronounced 8'' @ times_sign @ ''8 block boundaries may indicate double JPEG compression or heavy editing. However, this can also occur in low-quality JPEGs or after certain processing operations. Use with caution.'')
              else if boundaryStrength > 0.4 then
                (Info, ''Moderate block boundaries present'',
                 ''Some JPEG block boundaries are visible, which is normal for JPEG compression. May indicate moderate compression quality.'')
              else
                (Info, ''Block boundaries within normal range'',
                 ''JPEG block boundaries are minimal, suggesting either high quality compression or non-JPEG source.''))
       in Some \<lparr>check_id = ''double-compression'',
                check_name = ''Compression Artifacts (Experimental)'',
                status = st,
                summary = sm,
                details = [(''Block Boundary Strength'', DString (toFixed (boundaryStrength * 100) 1 @ ''%'')),
                           (''Analysis Type'', DString (''8'' @ times_sign @ ''8 DCT Block Analysis''))],
                confidence = 0.4,
                check_notes = nt,
                overlay = None,
                regions = None\<rparr>)"

subsection \<open>Uniform areas\<close>

text \<open>The luminance values of the block \<open>(bx, by)\<close>, in the order the two inner loops push them.\<close>

definition block_values :: "image_data \<Rightarrow> nat \<Rightarrow> nat \<Rightarrow> nat \<Rightarrow> real list" where
  "block_values img blockSize bx by =
    concat (map (\<lambda>dy. map (\<lambda>dx.
        let x = bx * blockSize + dx;
            y = by * blockSize + dy;
            idx = (y * img_width img + x) * 4
        in luminance (img_data img) idx) [0..<blockSize]) [0..<blockSize])"

text \<open>
  \<open>analyzeUniformity\<close>. The loop state is the pair of counters \<open>uniformBlocks\<close> and
  \<open>totalBlocks\<close> and the rows of \<open>uniformMap\<close> built so far; the result is the pair
  \<open>(uniformRatio, uniformMap)\<close>.
\<close>

definition uniformity_block ::
  "image_data \<Rightarrow> nat \<Rightarrow> nat \<times> nat \<times> real list \<Rightarrow> nat \<Rightarrow> nat \<times> nat \<times> real list" where
  "uniformity_block img by st bx =
    (case st of (uniformBlocks, totalBlocks, row) \<Rightarrow>
       let variance = standardDeviation (block_values img 16 bx by);
           uniformityScore = max 0 (1 - variance / 10)
       in ((if variance < 3 then uniformBlocks + 1 else uniformBlocks),
           totalBlocks + 1,
           row @ [uniformityScore]))"

definition uniformity_row ::
  "image_data \<Rightarrow> nat \<Rightarrow> nat \<times> nat \<times> real list list \<Rightarrow> nat \<Rightarrow> nat \<times> nat \<times> real list list" where
  "uniformity_row img blocksX st by =
    (case st of (uniformBlocks, totalBlocks, uniformMap) \<Rightarrow>
       case foldl (uniformity_block img by) (uniformBlocks, totalBlocks, []) [0..<blocksX] of
         (uniformBlocks', totalBlocks', row) \<Rightarrow> (uniformBlocks', totalBlocks', uniformMap @ [row]))"

definition analyzeUniformity :: "image_data \<Rightarrow> real \<times> real list list" where
  "analyzeUniformity img =
    (let blockSize = 16;
         blocksX = img_width img div blockSize;
         blocksY = img_height img div blockSize
     in if blocksX < 2 \<or> blocksY < 2 then (0, [])
        else
          case foldl (uniformity_row img blocksX) (0, 0, []) [0..<blocksY] of
            (uniformBlocks, totalBlocks, uniformMap) \<Rightarrow>
              ((if totalBlocks > 0 then real uniformBlocks / real totalBlocks else 0), uniformMap))"

text \<open>
  \<open>generateUniformAreasOverlay\<close>. A write into the overlay's byte array is a list update;
  the source guards each write by \<open>x < width && y < height\<close>.
\<close>

definition fill_block ::
  "nat \<Rightarrow> nat \<Rightarrow> real \<Rightarrow> nat \<Rightarrow> nat \<Rightarrow> byte list \<Rightarrow> byte list" where
  "fill_block w h score by bx d0 =
    (let r = clamp_byte \<lfloor>score * 255\<rfloor>;
         g = clamp_byte \<lfloor>(1 - score) * 128\<rfloor>;
         b = clamp_byte \<lfloor>(1 - score) * 255\<rfloor>;
         a = clamp_byte \<lfloor>score * 200\<rfloor>
     in foldl (\<lambda>d dy. foldl (\<lambda>d dx.
          let x = bx * 16 + dx;
              y = by * 16 + dy
          in if x < w \<and> y < h
             then (let idx = (y * w + x) * 4
                   in d[idx := r, idx + 1 := g, idx + 2 := b, idx + 3 := a])
             else d) d [0..<16]) d0 [0..<16])"

definition generateUniformAreasOverlay :: "image_data \<Rightarrow> real list list \<Rightarrow> image_data" where
  "generateUniformAreasOverlay img uniformMap =
    (let w = img_width img;
         h = img_height img
     in \<lparr>img_width = w,
         img_height = h,
         img_data =
           foldl (\<lambda>d by. foldl (\<lambda>d bx. fill_block w h (uniformMap ! by ! bx) by bx d) d
                    [0..<length (uniformMap ! by)])
             (replicate (w * h * 4) 0) [0..<length uniformMap]\<rparr>)"

definition checkUniformAreas :: "image_file \<Rightarrow> check_result" where
  "checkUniformAreas file =
    (let analysis = analyzeUniformity (imageData file);
         uniformRatio = fst analysis;
         ov = generateUniformAreasOverlay (imageData file) (snd analysis);
         (st, sm, nt) =
           (if uniformRatio > 0.3 then
              (Warn,
               ''Large uniform areas detected ('' @ toFixed (uniformRatio * 100) 0 @ ''%)'',
               ''Significant portions of the image have very uniform color/texture. This can indicate editing (cloning, filling) but is also common in images with solid backgrounds, sky, or simple graphics.'')
            else if uniformRatio > 0.1 then
              (Info,
               ''Some uniform areas present ('' @ toFixed (uniformRatio * 100) 0 @ ''%)'',
               ''Some uniform regions detected. This is often normal, especially in images with simple backgrounds.'')
            else
              (Info,
               ''Natural texture variation throughout'',
               ''The image shows typical texture variation without suspicious uniform regions.''))
     in \<lparr>check_id = ''uniform-areas'',
         check_name = ''Uniform Area Analysis'',
         status = st,
         summary = sm,
         details = [(''Uniform Ratio'', DString (toFixed (uniformRatio * 100) 1 @ ''%'')),
                    (''Analysis'', DString ''Texture variance per block'')],
         confidence = 0.5,
         check_notes = nt,
         overlay = Some ov,
         regions = None\<rparr>)"

definition runCompressionChecks :: "image_file \<Rightarrow> check_result list" where
  "runCompressionChecks file =
    (case checkJpegQuality file of None \<Rightarrow> [] | Some r \<Rightarrow> [r]) @
    (case checkDoubleCompression file of None \<Rightarrow> [] | Some r \<Rightarrow> [r]) @
    [checkUniformAreas file]"

section \<open>Pixel-level checks (utils.ts, pixelChecks.ts)\<close>

subsection \<open>Laplacian and heatmap\<close>

text \<open>
  \<open>applyLaplacian\<close>: the result array starts as zeros and the inner pixels are written,
  row by row.
\<close>

definition applyLaplacian :: "image_data \<Rightarrow> real list" where
  "applyLaplacian img =
    (let w = img_width img;
         h = img_height img;
         gray = grayscale (img_data img) w h
     in foldl (\<lambda>res y. foldl (\<lambda>res x.
          let idx = y * w + x;
              laplacian = - 4 * gray ! idx + gray ! (idx - 1) + gray ! (idx + 1) +
                          gray ! (idx - w) + gray ! (idx + w)
          in res[idx := \<bar>laplacian\<bar>]) res [1..<w - 1]) (replicate (w * h) 0) [1..<h - 1])"

text \<open>
  A colour map turns an array of magnitudes into an overlay of the given width and height;
  the last argument is the \<open>normalize\<close> flag. \<open>grayscaleToHeatmap\<close> is the colour map of
  utils.ts. The checks that draw an overlay take the colour map as an argument, so that a
  run with another colour map can be stated.
\<close>

type_synonym color_map = "real list \<Rightarrow> nat \<Rightarrow> nat \<Rightarrow> bool \<Rightarrow> image_data"

definition heat_paint :: "real list \<Rightarrow> real \<Rightarrow> byte list \<Rightarrow> nat \<Rightarrow> byte list" where
  "heat_paint vals maxVal d i =
    (let normalized = min (vals ! i / maxVal) 1;
         idx = i * 4;
         (r, g, b) =
           (if normalized < 0.25 then (0, \<lfloor>normalized * 4 * 255\<rfloor>, 255)
            else if normalized < 0.5 then (0, 255, \<lfloor>(1 - (normalized - 0.25) * 4) * 255\<rfloor>)
            else if normalized < 0.75 then (\<lfloor>(normalized - 0.5) * 4 * 255\<rfloor>, 255, 0)
            else (255, \<lfloor>(1 - (normalized - 0.75) * 4) * 255\<rfloor>, 0))
     in d[idx := clamp_byte r, idx + 1 := clamp_byte g, idx + 2 := clamp_byte b,
          idx + 3 := clamp_byte (\<lfloor>normalized * 200\<rfloor> + 55)])"

definition grayscaleToHeatmap :: color_map where
  "grayscaleToHeatmap vals w h normalized_scale =
    (let maxVal = (if normalized_scale then foldl (\<lambda>m v. if v > m then v else m) 1 vals else 1)
     in \<lparr>img_width = w,
         img_height = h,
         img_data = foldl (heat_paint vals maxVal) (replicate (w * h * 4) 0) [0..<length vals]\<rparr>)"

subsection \<open>Noise consistency\<close>

text \<open>The average Laplacian energy of the 32 by 32 block \<open>(bx, by)\<close>.\<close>

definition block_energy :: "real list \<Rightarrow> nat \<Rightarrow> nat \<Rightarrow> nat \<Rightarrow> real" where
  "block_energy laplacian w bx by =
    (case foldl (\<lambda>acc dy. foldl (\<lambda>(energy, count) dx.
            let x = bx * 32 + dx;
                y = by * 32 + dy;
                idx = y * w + x
            in if idx < length laplacian then (energy + laplacian ! idx, count + 1)
               else (energy, count)) acc [0..<32]) (0, 0 :: nat) [0..<32] of
       (energy, count) \<Rightarrow> if count > 0 then energy / real count else 0)"

definition checkNoiseConsistency :: "color_map \<Rightarrow> image_file \<Rightarrow> check_result" where
  "checkNoiseConsistency heatmap file =
    (let laplacian = applyLaplacian (imageData file);
         blockSize = 32;
         blocksX = width file div blockSize;
         blocksY = height file div blockSize
     in if blocksX < 3 \<or> blocksY < 3 then
          \<lparr>check_id = ''noise-consistency'',
           check_name = ''Noise Consistency Analysis'',
           status = Info,
           summary = ''Image too small for reliable noise analysis'',
           details = [(''Analysis'', DString ''Skipped - insufficient resolution'')],
           confidence = 0.2,
           check_notes = ''The image is too small to perform meaningful noise consistency analysis.'',
           overlay = None,
           regions = None\<rparr>
        else
          let blockMap = map (\<lambda>by. map (\<lambda>bx. block_energy laplacian (width file) bx by) [0..<blocksX])
                           [0..<blocksY];
              blockEnergies = concat blockMap;
              meanEnergy = mean blockEnergies;
              stdEnergy = standardDeviation blockEnergies;
              outlierThreshold = 2.5;
              outlierBlocks = concat (map (\<lambda>by. concat (map (\<lambda>bx.
                  let energy = blockMap ! by ! bx;
                      zScore = (if stdEnergy > 0 then \<bar>energy - meanEnergy\<bar> / stdEnergy else 0)
                  in if zScore > outlierThreshold
                     then [\<lparr>region_x = bx * blockSize,
                            region_y = by * blockSize,
                            region_width = blockSize,
                            region_height = blockSize,
                            region_label = Some (''Z-score: '' @ toFixed zScore 1)\<rparr>]
                     else []) [0..<blocksX])) [0..<blocksY]);
              ov = heatmap laplacian (width file) (height file) True;
              outlierRatio = real (length outlierBlocks) / real (length blockEnergies);
              (st, sm, nt) =
                (if outlierRatio > 0.15 then
                   (Warn,
                    ''Significant noise inconsistencies detected ('' @ show_nat (length outlierBlocks) @ '' regions)'',
                    ''Multiple regions show significantly different noise/texture characteristics. This could indicate editing, compositing, or different image sources. However, it can also occur naturally at boundaries between textured and smooth areas.'')
                 else if outlierRatio > 0.05 then
                   (Info,
                    ''Some noise variation detected ('' @ show_nat (length outlierBlocks) @ '' regions)'',
                    ''A few regions show different noise characteristics. This is often normal and can occur at natural boundaries in images.'')
                 else
                   (Ok,
                    ''Noise characteristics appear consistent'',
                    ''The image shows relatively uniform noise characteristics throughout, which is expected for unedited photos.''))
          in \<lparr>check_id = ''noise-consistency'',
              check_name = ''Noise Consistency Analysis'',
              status = st,
              summary = sm,
              details = [(''Blocks Analyzed'', DNumber (real (length blockEnergies))),
                         (''Outlier Blocks'', DNumber (real (length outlierBlocks))),
                         (''Outlier Ratio'', DString (toFixed (outlierRatio * 100) 1 @ ''%'')),
                         (''Mean Energy'', DString (toFixed meanEnergy 2)),
                         (''Std Dev'', DString (toFixed stdEnergy 2))],
              confidence = 0.6,
              check_notes = nt,
              overlay = Some ov,
              regions = Some outlierBlocks\<rparr>)"

subsection \<open>Edge inconsistency\<close>

text \<open>The Sobel gradient magnitudes: zeros, with the inner pixels written row by row.\<close>

definition sobel_edgeMap :: "image_file \<Rightarrow> real list" where
  "sobel_edgeMap file =
    (let w = width file;
         h = height file;
         gray = grayscale (img_data (imageData file)) w h
     in foldl (\<lambda>res y. foldl (\<lambda>res x.
          let idx = y * w + x;
              gx = - gray ! (idx - w - 1) + gray ! (idx - w + 1) +
                   - 2 * gray ! (idx - 1) + 2 * gray ! (idx + 1) +
                   - gray ! (idx + w - 1) + gray ! (idx + w + 1);
              gy = - gray ! (idx - w - 1) - 2 * gray ! (idx - w) - gray ! (idx - w + 1) +
                   gray ! (idx + w - 1) + 2 * gray ! (idx + w) + gray ! (idx + w + 1)
          in res[idx := sqrt (gx * gx + gy * gy)]) res [1..<w - 1]) (replicate (w * h) 0) [1..<h - 1])"

text \<open>
  The three passes over the edge map, each a loop with its accumulators: sum and count of
  the positive magnitudes, the sum of their squared deviations, and the count of the
  magnitudes above the threshold.
\<close>

definition edge_sum_count :: "real list \<Rightarrow> real \<times> nat" where
  "edge_sum_count edgeMap =
    foldl (\<lambda>(edgeSum, edgeCount) v. if v > 0 then (edgeSum + v, edgeCount + 1) else (edgeSum, edgeCount))
      (0, 0) edgeMap"

definition edge_varianceSum :: "real list \<Rightarrow> real \<Rightarrow> real" where
  "edge_varianceSum edgeMap meanEdge =
    foldl (\<lambda>varianceSum v. if v > 0 then varianceSum + (v - meanEdge) ^ 2 else varianceSum) 0 edgeMap"

definition edge_strongCount :: "real list \<Rightarrow> real \<Rightarrow> nat" where
  "edge_strongCount edgeMap strongEdgeThreshold =
    foldl (\<lambda>strongEdgeCount v. if v > strongEdgeThreshold then strongEdgeCount + 1 else strongEdgeCount)
      0 edgeMap"

definition edge_meanEdge :: "real list \<Rightarrow> real" where
  "edge_meanEdge edgeMap =
    (case edge_sum_count edgeMap of
       (edgeSum, edgeCount) \<Rightarrow> if edgeCount > 0 then edgeSum / real edgeCount else 0)"

definition edge_stdEdge :: "real list \<Rightarrow> real" where
  "edge_stdEdge edgeMap =
    (case edge_sum_count edgeMap of
       (edgeSum, edgeCount) \<Rightarrow>
         if edgeCount > 0
         then sqrt (edge_varianceSum edgeMap (edge_meanEdge edgeMap) / real edgeCount)
         else 0)"

definition strongEdgeRatio :: "image_file \<Rightarrow> real" where
  "strongEdgeRatio file =
    (let edgeMap = sobel_edgeMap file;
         strongEdgeThreshold = edge_meanEdge edgeMap + 3 * edge_stdEdge edgeMap
     in real (edge_strongCount edgeMap strongEdgeThreshold) / real (width file * height file))"

definition checkEdgeInconsistency :: "color_map \<Rightarrow> image_file \<Rightarrow> check_result" where
  "checkEdgeInconsistency heatmap file =
    (let edgeMap = sobel_edgeMap file;
         meanEdge = edge_meanEdge edgeMap;
         ratio = strongEdgeRatio file;
         ov = heatmap edgeMap (width file) (height file) True;
         (st, sm, nt) =
           (if ratio > 0.02 then
              (Info,
               ''Contains sharp edges worth reviewing'',
               ''The image contains notable sharp edges. Sharp edges can indicate artificial boundaries from editing, but are also common in high-contrast photos, text, or graphics.'')
            else
              (Ok,
               ''Edge characteristics appear natural'',
               ''Edge distribution appears typical for a natural photograph.''))
     in \<lparr>check_id = ''edge-consistency'',
         check_name = ''Edge Analysis'',
         status = st,
         summary = sm,
         details = [(''Mean Edge Strength'', DString (toFixed meanEdge 2)),
                    (''Strong Edge Ratio'', DString (toFixed (ratio * 100) 2 @ ''%''))],
         confidence = 0.5,
         check_notes = nt,
         overlay = Some ov,
         regions = None\<rparr>)"

subsection \<open>Clone detection\<close>

text \<open>
  \<open>hashBlock\<close>: the hash is a 32-bit integer (\<open>| 0\<close> wraps it after every step), printed
  in base 16 with its sign.
\<close>

definition hashBlock :: "image_data \<Rightarrow> nat \<Rightarrow> nat \<Rightarrow> nat \<Rightarrow> string" where
  "hashBlock img x y blockSize =
    toString16 (sint (foldl (\<lambda>hash dy. foldl (\<lambda>hash dx.
        let idx = ((y + dy) * img_width img + (x + dx)) * 4;
            gray = \<lfloor>luminance (img_data img) idx\<rfloor>;
            quantized = gray div 16
        in (push_bit 5 hash - hash + word_of_int quantized)) hash [0..<blockSize])
      (0 :: 32 word) [0..<blockSize]))"

text \<open>
  The \<open>Map\<close> from hash to positions keeps its keys in insertion order: an association
  list, a new key appended at the end.
\<close>

fun hashMap_push ::
  "(string \<times> (nat \<times> nat) list) list \<Rightarrow> string \<Rightarrow> nat \<times> nat \<Rightarrow> (string \<times> (nat \<times> nat) list) list" where
  "hashMap_push [] k p = [(k, [p])]"
| "hashMap_push ((k', ps) # m) k p =
     (if k' = k then (k', ps @ [p]) # m else (k', ps) # hashMap_push m k p)"

definition clone_region :: "nat \<Rightarrow> nat \<times> nat \<Rightarrow> region" where
  "clone_region blockSize p =
    \<lparr>region_x = fst p, region_y = snd p, region_width = blockSize, region_height = blockSize,
     region_label = None\<rparr>"

text \<open>The pairs of one hash bucket that lie further apart than \<open>minDistance\<close>.\<close>

definition bucket_duplicates :: "nat \<Rightarrow> (nat \<times> nat) list \<Rightarrow> region list" where
  "bucket_duplicates blockSize positions =
    (if length positions > 1 then
       concat (map (\<lambda>i. concat (map (\<lambda>j.
         let dx = int (fst (positions ! i)) - int (fst (positions ! j));
             dy = int (snd (positions ! i)) - int (snd (positions ! j));
             distance = sqrt (real_of_int (dx * dx + dy * dy))
         in if distance > real (blockSize * 2)
            then [clone_region blockSize (positions ! i), clone_region blockSize (positions ! j)]
            else []) [i + 1..<length positions])) [0..<length positions])
     else [])"

definition deduplicateRegions :: "region list \<Rightarrow> nat \<Rightarrow> region list" where
  "deduplicateRegions rs margin =
    foldl (\<lambda>unique r.
        if list_ex (\<lambda>existing.
             \<bar>int (region_x r) - int (region_x existing)\<bar> < int margin \<and>
             \<bar>int (region_y r) - int (region_y existing)\<bar> < int margin) unique
        then unique else unique @ [r]) [] rs"

definition checkCloneDetection :: "image_file \<Rightarrow> bool \<Rightarrow> check_result" where
  "checkCloneDetection file deepScan =
    (let blockSize = (if deepScan then 16 else 32 :: nat);
         step = (if deepScan then 8 else 16 :: nat);
         blocksX = (int (width file) - int blockSize) div int step;
         blocksY = (int (height file) - int blockSize) div int step
     in if blocksX < 4 \<or> blocksY < 4 then
          \<lparr>check_id = ''clone-detection'',
           check_name = ''Clone Detection'',
           status = Info,
           summary = ''Image too small for clone analysis'',
           details = [(''Analysis'', DString ''Skipped - insufficient resolution'')],
           confidence = 0.2,
           check_notes = ''The image is too small to perform meaningful clone detection.'',
           overlay = None,
           regions = None\<rparr>
        else
          let hashMap = foldl (\<lambda>m by. foldl (\<lambda>m bx.
                  let x = bx * step;
                      y = by * step
                  in hashMap_push m (hashBlock (imageData file) x y blockSize) (x, y)) m
                [0..<nat blocksX]) [] [0..<nat blocksY];
              duplicateRegions = concat (map (\<lambda>(k, positions). bucket_duplicates blockSize positions) hashMap);
              uniqueRegions = deduplicateRegions duplicateRegions blockSize;
              (st, sm, nt) =
                (if length uniqueRegions > 10 then
                   (Warn,
                    ''Potential cloned regions detected ('' @ show_nat (length uniqueRegions) @ '' matches)'',
                    ''Multiple similar regions found that are spatially separated. This could indicate copy-paste editing. However, patterns, textures, and repeated elements in scenes can cause false positives.'')
                 else if length uniqueRegions > 0 then
                   (Info,
                    ''Some similar regions found ('' @ show_nat (length uniqueRegions) @ '' matches)'',
                    ''A few similar regions were detected. This is often caused by natural patterns or textures in the image.'')
                 else
                   (Ok,
                    ''No obvious cloned regions detected'',
                    ''No significantly similar regions found. This doesn't guarantee no cloning occurred, as sophisticated edits may not be detected.''))
          in \<lparr>check_id = ''clone-detection'',
              check_name = (if deepScan then ''Clone Detection (Deep Scan)'' else ''Clone Detection''),
              status = st,
              summary = sm,
              details = [(''Scan Type'', DString (if deepScan then ''Deep (slower, more thorough)'' else ''Quick'')),
                         (''Block Size'', DString (show_nat blockSize @ ''px'')),
                         (''Matches Found'', DNumber (real (length uniqueRegions))),
                         (''Blocks Analyzed'', DNumber (real_of_int (blocksX * blocksY)))],
              confidence = (if deepScan then 0.6 else 0.4),
              check_notes = nt,
              overlay = None,
              regions = Some uniqueRegions\<rparr>)"

text \<open>\<open>runPixelChecks\<close>, with the colour map the noise and edge checks draw with.\<close>

definition runPixelChecks :: "color_map \<Rightarrow> image_file \<Rightarrow> bool \<Rightarrow> check_result list" where
  "runPixelChecks heatmap file deepCloneScan =
    [checkNoiseConsistency heatmap file,
     checkEdgeInconsistency heatmap file,
     checkCloneDetection file deepCloneScan]"

section \<open>Error level analysis (elaCheck.ts)\<close>

text \<open>
  The re-encoder \<open>reencodeJpeg\<close> is an external collaborator (canvas and image decoding of
  the browser): given the canvas and a quality it resolves with the re-encoded pixels, or
  rejects with a thrown value. It is an argument of the check.
\<close>

type_synonym reencoder = "image_data \<Rightarrow> real \<Rightarrow> thrown + image_data"

definition ELA_QUALITY :: nat where
  "ELA_QUALITY = 90"

definition newline :: string where
  "newline = [CHR 0x0A]"

definition bullet :: string where
  "bullet = [CHR 0xE2, CHR 0x80, CHR 0xA2]"

definition warning_sign :: string where
  "warning_sign = [CHR 0xE2, CHR 0x9A, CHR 0xA0, CHR 0xEF, CHR 0xB8, CHR 0x8F]"

definition ela_caveats :: string where
  "ela_caveats =
    warning_sign @ '' IMPORTANT CAVEATS:'' @ newline @ newline @
    bullet @ '' ELA results are highly prone to false positives'' @ newline @
    bullet @ '' Previously compressed/resaved images will show varied ELA regardless of editing'' @ newline @
    bullet @ '' Social media reuploads typically produce noisy ELA results'' @ newline @
    bullet @ '' Solid colors and smooth gradients naturally show different error levels than textured areas'' @ newline @
    bullet @ '' ELA cannot definitively prove or disprove image manipulation'' @ newline @
    bullet @ '' Use ELA as ONE data point among many, never as sole evidence'' @ newline @ newline @
    ''The overlay shows areas of higher error (potential edits) in warm colors. Look for unusual patterns that don't correspond to the image content, but interpret with extreme caution.''"

text \<open>The per-pixel difference of the original and the re-encoded buffer.\<close>

definition ela_diff :: "byte list \<Rightarrow> byte list \<Rightarrow> nat \<Rightarrow> real" where
  "ela_diff originalData reencodedData i =
    (let idx = i * 4;
         diffR = \<bar>real (unat (originalData ! idx)) - real (unat (reencodedData ! idx))\<bar>;
         diffG = \<bar>real (unat (originalData ! (idx + 1))) - real (unat (reencodedData ! (idx + 1)))\<bar>;
         diffB = \<bar>real (unat (originalData ! (idx + 2))) - real (unat (reencodedData ! (idx + 2)))\<bar>
     in (diffR + diffG + diffB) / 3)"

text \<open>The computation of the \<open>try\<close> block once the re-encoded pixels are there.\<close>

definition ela_result :: "image_file \<Rightarrow> image_data \<Rightarrow> check_result" where
  "ela_result file reencoded =
    (let originalData = img_data (imageData file);
         reencodedData = img_data reencoded;
         w = width file;
         h = height file;
         diffValues = map (ela_diff originalData reencodedData) [0..<w * h];
         maxDiff = foldl (\<lambda>m d. if d > m then d else m) 0 diffValues;
         totalDiff = foldl (\<lambda>t d. t + d) 0 diffValues;
         avgDiff = totalDiff / real (w * h);
         variance = sqrt (foldl (\<lambda>v d. v + (d - avgDiff) ^ 2) 0 diffValues / real (length diffValues));
         scale = (if maxDiff > 0 then 255 / maxDiff else 1);
         scaledDiff = map (\<lambda>d. min (d * scale * 2) 255) diffValues;
         ov = grayscaleToHeatmap scaledDiff w h False;
         (st, sm) =
           (if variance > 20 then (Warn, ''ELA shows notable variation (review recommended)'')
            else (Info, ''ELA shows relatively uniform error levels''))
     in \<lparr>check_id = ''ela'',
         check_name = ''Error Level Analysis'',
         status = st,
         summary = sm,
         details = [(''Re-encode Quality'', DString (show_nat ELA_QUALITY @ ''%'')),
                    (''Average Difference'', DString (toFixed avgDiff 2)),
                    (''Max Difference'', DString (toFixed maxDiff 2)),
                    (''Variance'', DString (toFixed variance 2))],
         confidence = 0.4,
         check_notes = ela_caveats,
         overlay = Some ov,
         regions = None\<rparr>)"

text \<open>The \<open>try\<close> block: it throws what the re-encoder throws.\<close>

definition ela_try :: "reencoder \<Rightarrow> image_file \<Rightarrow> thrown + check_result" where
  "ela_try reencodeJpeg file =
    (case reencodeJpeg (canvas file) (real ELA_QUALITY / 100) of
       Inl error \<Rightarrow> Inl error
     | Inr reencoded \<Rightarrow> Inr (ela_result file reencoded))"

text \<open>
  \<open>performELA\<close>: the result is \<open>Inl\<close> when the promise rejects, and \<open>Inr\<close> of the
  \<open>CheckResult | null\<close> it resolves with otherwise. The \<open>catch\<close> clause handles what the
  \<open>try\<close> block throws.
\<close>

definition performELA :: "reencoder \<Rightarrow> image_file \<Rightarrow> thrown + check_result option" where
  "performELA reencodeJpeg file =
    (let fileType = detectFileType (arrayBuffer file)
     in if fileType \<noteq> Some ''image/jpeg'' then
          Inr (Some
            \<lparr>check_id = ''ela'',
             check_name = ''Error Level Analysis'',
             status = Info,
             summary = ''ELA not applicable (non-JPEG)'',
             details = [(''Format'', DString (case fileType of None \<Rightarrow> ''Unknown'' | Some t \<Rightarrow> t)),
                        (''Note'', DString ''ELA is designed for JPEG images'')],
             confidence = 0.3,
             check_notes = ''Error Level Analysis is most meaningful for JPEG images. For PNG or other formats, the analysis would not provide useful results.'',
             overlay = None,
             regions = None\<rparr>)
        else
          case ela_try reencodeJpeg file of
            Inr r \<Rightarrow> Inr (Some r)
          | Inl error \<Rightarrow>
              Inr (Some
                \<lparr>check_id = ''ela'',
                 check_name = ''Error Level Analysis'',
                 status = Info,
                 summary = ''ELA analysis failed'',
                 details = [(''Error'', DString (case error of ErrorObject message \<Rightarrow> message
                                                             | OtherValue \<Rightarrow> ''Unknown error''))],
                 confidence = 0.1,
                 check_notes = ''Could not perform Error Level Analysis. This may be due to image format issues or browser limitations.'',
                 overlay = None,
                 regions = None\<rparr>))"

definition runELACheck :: "reencoder \<Rightarrow> image_file \<Rightarrow> thrown + check_result list" where
  "runELACheck reencodeJpeg file =
    (case performELA reencodeJpeg file of
       Inl error \<Rightarrow> Inl error
     | Inr r \<Rightarrow> Inr (case r of None \<Rightarrow> [] | Some c \<Rightarrow> [c]))"

section \<open>Social media heuristic (socialMediaHint.ts)\<close>

text \<open>\<open>ExifData\<close>: an object of tags, here the list of its keys with their values.\<close>

type_synonym exif_data = "(string \<times> detail) list"

definition SOCIAL_MEDIA_DIMENSIONS :: "(nat \<times> string) list" where
  "SOCIAL_MEDIA_DIMENSIONS =
    [(2048, ''Facebook/Instagram''),
     (1080, ''Instagram''),
     (1200, ''Twitter''),
     (1280, ''Twitter/Telegram''),
     (1600, ''Various''),
     (4096, ''Twitter 4K'')]"

text \<open>The state the heuristic accumulates: the signal list and the score.\<close>

record social_state =
  signals :: "string list"
  score :: nat

definition add_signal :: "string \<Rightarrow> nat \<Rightarrow> social_state \<Rightarrow> social_state" where
  "add_signal s n st = st\<lparr>signals := signals st @ [s], score := score st + n\<rparr>"

text \<open>Check 1: missing EXIF.\<close>

definition social_exif :: "exif_data option \<Rightarrow> social_state \<Rightarrow> social_state" where
  "social_exif exifData st =
    (if (case exifData of None \<Rightarrow> True | Some e \<Rightarrow> length e = 0)
     then add_signal ''No EXIF metadata (stripped by most platforms)'' 2 st
     else st)"

text \<open>Check 2: the loop over the platform widths, left by \<open>break\<close> at the first match.\<close>

fun social_dimensions :: "(nat \<times> string) list \<Rightarrow> nat \<Rightarrow> social_state \<Rightarrow> social_state" where
  "social_dimensions [] maxDim st = st"
| "social_dimensions ((pw, platform) # rest) maxDim st =
     (if maxDim = pw then
        add_signal (''Max dimension '' @ show_nat pw @ ''px (common for '' @ platform @ '')'') 2 st
      else if \<bar>int maxDim - int pw\<bar> < 10 then
        add_signal (''Max dimension ~'' @ show_nat pw @ ''px (close to '' @ platform @ '' limit)'') 1 st
      else social_dimensions rest maxDim st)"

text \<open>
  Check 3: JPEG with a lower quality. A comparison with \<open>NaN\<close> is false. The second
  comparison adds to the score without a signal.
\<close>

definition social_quality :: "string option \<Rightarrow> int_or_nan option \<Rightarrow> social_state \<Rightarrow> social_state" where
  "social_quality fileType jpegQuality st =
    (case jpegQuality of
       Some (Num q) \<Rightarrow>
         if fileType = Some ''image/jpeg'' then
           (let st1 = (if q < 85
                       then add_signal (''JPEG quality ~'' @ show_int q @ ''% (social platforms often recompress)'') 1 st
                       else st)
            in if q < 70 then st1\<lparr>score := score st1 + 1\<rparr> else st1)
         else st
     | _ \<Rightarrow> st)"

text \<open>Check 4: the three aspect-ratio tests, one after the other.\<close>

definition social_aspect :: "real \<Rightarrow> social_state \<Rightarrow> social_state" where
  "social_aspect aspectRatio st =
    (let st1 = (if \<bar>aspectRatio - 1.0\<bar> < 0.01
                then add_signal ''Square aspect ratio (1:1) - common on Instagram'' 1 st else st);
         st2 = (if \<bar>aspectRatio - 0.8\<bar> < 0.02 \<or> \<bar>aspectRatio - 1.25\<bar> < 0.02
                then add_signal ''4:5 or 5:4 aspect ratio - common on Instagram'' 1 st1 else st1);
         st3 = (if \<bar>aspectRatio - 1.778\<bar> < 0.02 \<or> \<bar>aspectRatio - 0.5625\<bar> < 0.02
                then add_signal ''16:9 aspect ratio - common for video thumbnails'' 1 st2 else st2)
     in st3)"

text \<open>The state after the four checks.\<close>

definition social_signals :: "image_file \<Rightarrow> exif_data option \<Rightarrow> int_or_nan option \<Rightarrow> social_state" where
  "social_signals file exifData jpegQuality =
    (let st1 = social_exif exifData \<lparr>signals = [], score = 0\<rparr>;
         maxDim = max (width file) (height file);
         st2 = social_dimensions SOCIAL_MEDIA_DIMENSIONS maxDim st1;
         fileType = detectFileType (arrayBuffer file);
         st3 = social_quality fileType jpegQuality st2;
         aspectRatio = real (width file) / real (height file)
     in social_aspect aspectRatio st3)"

definition checkSocialMediaHint ::
  "image_file \<Rightarrow> exif_data option \<Rightarrow> int_or_nan option \<Rightarrow> check_result" where
  "checkSocialMediaHint file exifData jpegQuality =
    (let st = social_signals file exifData jpegQuality;
         (stat, sm, conf) =
           (if score st \<ge> 4 then (Info, ''Likely re-shared through social media'', 0.7)
            else if score st \<ge> 2 then (Info, ''Some signs of possible social media sharing'', 0.5)
            else (Ok, ''No strong indicators of social media reupload'', 0.4))
     in \<lparr>check_id = ''social-media-hint'',
         check_name = ''Social Media Detection'',
         status = stat,
         summary = sm,
         details = [(''Detection Score'', DString (show_nat (score st) @ ''/8'')),
                    (''Signals Found'', DNumber (real (length (signals st))))] @
                   map (\<lambda>idx. (''Signal '' @ show_nat (idx + 1), DString (signals st ! idx)))
                     [0..<length (signals st)],
         confidence = conf,
         check_notes =
           (if score st \<ge> 2
            then ''This image shows characteristics commonly associated with social media reuploads. Social platforms typically strip metadata, resize images, and recompress them. This is informational only and doesn't indicate manipulation.''
            else ''No strong indicators that this image has been shared through social media. The metadata and dimensions don't match common social media patterns.''),
         overlay = None,
         regions = None\<rparr>)"

definition runSocialMediaCheck ::
  "image_file \<Rightarrow> exif_data option \<Rightarrow> int_or_nan option \<Rightarrow> check_result list" where
  "runSocialMediaCheck file exifData jpegQuality = [checkSocialMediaHint file exifData jpegQuality]"

section \<open>Pipeline (pipeline.ts)\<close>

text \<open>
  \<open>parseInt\<close> in base 10: leading blanks, an optional sign, then the leading decimal
  digits; \<open>NaN\<close> when there is none. (A \<open>0x\<close> prefix does not occur in the strings the
  pipeline parses.)
\<close>

definition is_digit :: "char \<Rightarrow> bool" where
  "is_digit c = (c \<in> set ''0123456789'')"

definition digit_value :: "char \<Rightarrow> nat" where
  "digit_value c = of_char c - 48"

definition parseInt :: "string \<Rightarrow> int_or_nan" where
  "parseInt s =
    (let t = dropWhile (\<lambda>c. c = CHR '' '') s;
         negative = (t \<noteq> [] \<and> hd t = CHR ''-'');
         u = (if t \<noteq> [] \<and> (hd t = CHR ''-'' \<or> hd t = CHR ''+'') then tl t else t);
         ds = takeWhile is_digit u
     in if ds = [] then NaN
        else let n = int (foldl (\<lambda>acc c. acc * 10 + digit_value c) 0 ds)
             in Num (if negative then - n else n))"

text \<open>
  What the pipeline takes from outside the modelled code: the results of the file and
  metadata stages (fileChecks.ts and the EXIF library), the extracted EXIF record, the
  re-encoder, and the clock. The optional progress callback is left out.
\<close>

record pipeline_env =
  fileResults :: "check_result list"
  metadataResults :: "check_result list"
  exifData :: "exif_data option"
  reencodeJpeg :: reencoder
  now_iso :: string

text \<open>
  The JPEG quality handed to the social-media heuristic: the \<open>Quality Estimate\<close> detail
  of the \<open>jpeg-quality\<close> result, parsed, when that detail is a non-empty string.
\<close>

definition pipeline_jpegQuality :: "check_result list \<Rightarrow> int_or_nan option" where
  "pipeline_jpegQuality compressionResults =
    (case find (\<lambda>r. check_id r = ''jpeg-quality'') compressionResults of
       None \<Rightarrow> None
     | Some r \<Rightarrow>
         (case map_of (details r) ''Quality Estimate'' of
            Some (DString s) \<Rightarrow> if s \<noteq> [] then Some (parseInt s) else None
          | _ \<Rightarrow> None))"

definition count_status :: "CheckStatus \<Rightarrow> check_result list \<Rightarrow> nat" where
  "count_status s allChecks = length (filter (\<lambda>c. status c = s) allChecks)"

definition runForensicPipeline ::
  "pipeline_env \<Rightarrow> image_file \<Rightarrow> bool \<Rightarrow> thrown + forensic_report" where
  "runForensicPipeline env imageFile deepCloneScan =
    (let compressionResults = runCompressionChecks imageFile;
         jpegQuality = pipeline_jpegQuality compressionResults;
         pixelResults = runPixelChecks grayscaleToHeatmap imageFile deepCloneScan
     in case runELACheck (reencodeJpeg env) imageFile of
          Inl error \<Rightarrow> Inl error
        | Inr elaResults \<Rightarrow>
            (let socialResults = runSocialMediaCheck imageFile (exifData env) jpegQuality;
                 allChecks = fileResults env @ metadataResults env @ compressionResults @
                             pixelResults @ elaResults @ socialResults;
                 counts = \<lparr>okCount = count_status Ok allChecks,
                           warnCount = count_status Warn allChecks,
                           failCount = count_status Fail allChecks,
                           infoCount = count_status Info allChecks\<rparr>;
                 verdict = (if failCount counts > 0 \<or> warnCount counts \<ge> 3 then Suspicious
                            else if warnCount counts > 0 then Review
                            else Clean)
             in Inr \<lparr>filename = file_name imageFile,
                     fileSize = file_size imageFile,
                     dimensions = (width imageFile, height imageFile),
                     mimeType = (if file_type imageFile \<noteq> [] then file_type imageFile
                                 else case detectFileType (arrayBuffer imageFile) of
                                        Some t \<Rightarrow> t
                                      | None \<Rightarrow> ''unknown''),
                     timestamp = now_iso env,
                     checks = allChecks,
                     overallStatus = verdict,
                     report_summary = counts\<rparr>))"

text \<open>
  \<open>runDeepCloneScan\<close>: \<open>find\<close> yields \<open>undefined\<close> (\<open>None\<close>) when no result has the id;
  the source asserts with \<open>!\<close> that it does not happen.
\<close>

definition runDeepCloneScan :: "image_file \<Rightarrow> check_result option" where
  "runDeepCloneScan imageFile =
    find (\<lambda>c. check_id c = ''clone-detection'') (runPixelChecks grayscaleToHeatmap imageFile True)"

section \<open>Reference definitions for the properties\<close>

text \<open>
  The definitions of this section are not part of the program: they state, in the words
  of its description, what the loops of the program are compared with.
\<close>

subsection \<open>DQT segments\<close>

text \<open>The 16-bit big-endian length field of the segment whose marker stands at \<open>i\<close>.\<close>

definition segment_length :: "byte list \<Rightarrow> nat \<Rightarrow> int" where
  "segment_length bytes i = 256 * uint (bytes ! (i + 2)) + uint (bytes ! (i + 3))"

text \<open>
  A usable DQT segment stands at \<open>i\<close>: the marker \<open>FF DB\<close>, a segment length of at least 67,
  and a non-zero DC coefficient (the byte at \<open>i + 5\<close>, the first entry of the table).
\<close>

definition dqt_segment_at :: "byte list \<Rightarrow> nat \<Rightarrow> bool" where
  "dqt_segment_at bytes i =
    (i + 5 < length bytes \<and> bytes ! i = 0xFF \<and> bytes ! (i + 1) = 0xDB \<and>
     67 \<le> segment_length bytes i \<and> bytes ! (i + 5) \<noteq> 0)"

text \<open>
  The offsets the scan of the program visits: those with at least 71 bytes from the
  marker to the end of the buffer.
\<close>

definition in_scan_window :: "byte list \<Rightarrow> nat \<Rightarrow> bool" where
  "in_scan_window bytes i = (i + 70 < length bytes)"

text \<open>The piecewise inverse function of the DC coefficient, clamped to 1..100.\<close>

definition dqt_quality :: "int \<Rightarrow> int" where
  "dqt_quality q0 =
    max 1 (min 100
      (if q0 < 2 then 98
       else if q0 < 10 then 100 - 2 * q0
       else if q0 < 50 then Math_round (5000 / real_of_int q0)
       else 200 - 2 * q0))"

subsection \<open>Sobel gradient magnitudes\<close>








subsection \<open>Edge statistics\<close>


subsection \<open>Uniform blocks\<close>


subsection \<open>Verdict\<close>

definition verdict_of_counts :: "summary_counts \<Rightarrow> overall_status" where
  "verdict_of_counts c =
    (if failCount c > 0 \<or> warnCount c \<ge> 3 then Suspicious
     else if warnCount c > 0 then Review
     else Clean)"

section \<open>Example inputs\<close>

text \<open>
  Concrete inputs on which the properties below are evaluated: images of one pixel with
  the magic bytes of a PNG, a JPEG and a GIF file, a re-encoder that rejects and one that
  returns the canvas unchanged, a colour map that paints nothing, and two environments of
  the pipeline whose file stage reports one warning. The raw bytes of the example files
  are cut after the signature; the JPEG has no DQT segment.
\<close>

definition tiny_pixels :: image_data where
  "tiny_pixels = \<lparr>img_width = 1, img_height = 1, img_data = [10, 20, 30, 255]\<rparr>"

definition tiny_png :: image_file where
  "tiny_png =
    \<lparr>file_name = ''a.png'', file_size = 8, file_type = ''image/png'',
     arrayBuffer = [0x89, 0x50, 0x4E, 0x47, 0x0D, 0x0A, 0x1A, 0x0A],
     width = 1, height = 1, imageData = tiny_pixels, canvas = tiny_pixels\<rparr>"

definition tiny_jpeg :: image_file where
  "tiny_jpeg =
    \<lparr>file_name = ''b.jpg'', file_size = 4, file_type = ''image/jpeg'',
     arrayBuffer = [0xFF, 0xD8, 0xFF, 0xE0],
     width = 1, height = 1, imageData = tiny_pixels, canvas = tiny_pixels\<rparr>"

definition failing_reencoder :: reencoder where
  "failing_reencoder c q = Inl (ErrorObject ''Failed to create blob'')"

definition identity_reencoder :: reencoder where
  "identity_reencoder c q = Inr c"

definition blank_color_map :: color_map where
  "blank_color_map vals w h n = \<lparr>img_width = w, img_height = h, img_data = replicate (w * h * 4) 0\<rparr>"

definition tiny_gif :: image_file where
  "tiny_gif =
    \<lparr>file_name = ''c.gif'', file_size = 6, file_type = ''image/gif'',
     arrayBuffer = [0x47, 0x49, 0x46, 0x38, 0x39, 0x61],
     width = 1, height = 1, imageData = tiny_pixels, canvas = tiny_pixels\<rparr>"

definition type_mismatch_warning :: check_result where
  "type_mismatch_warning =
    \<lparr>check_id = ''file-type'', check_name = ''File Type Detection'', status = Warn,
     summary = ''File signature (image/png) differs from declared type (image/jpeg)'',
     details = [], confidence = 0.95, check_notes = [], overlay = None, regions = None\<rparr>"

definition env0 :: pipeline_env where
  "env0 = \<lparr>fileResults = [type_mismatch_warning], metadataResults = [], exifData = None,
            reencodeJpeg = failing_reencoder, now_iso = ''2024-01-01T00:00:00.000Z''\<rparr>"

definition env1 :: pipeline_env where
  "env1 = \<lparr>fileResults = [type_mismatch_warning], metadataResults = [], exifData = None,
            reencodeJpeg = identity_reencoder, now_iso = ''2024-06-30T12:00:00.000Z''\<rparr>"

text \<open>A 32 by 32 image, black but for one white pixel, at offset (2, 2), in each 16 by 16 block.\<close>

definition speckled_pixels :: image_data where
  "speckled_pixels =
    \<lparr>img_width = 32, img_height = 32,
     img_data = (replicate 4096 0)
       [264 := 255, 265 := 255, 266 := 255,
        328 := 255, 329 := 255, 330 := 255,
        2312 := 255, 2313 := 255, 2314 := 255,
        2376 := 255, 2377 := 255, 2378 := 255]\<rparr>"

definition speckled_png :: image_file where
  "speckled_png =
    \<lparr>file_name = ''s.png'', file_size = 8, file_type = ''image/png'',
     arrayBuffer = [0x89, 0x50, 0x4E, 0x47, 0x0D, 0x0A, 0x1A, 0x0A],
     width = 32, height = 32, imageData = speckled_pixels, canvas = speckled_pixels\<rparr>"

text \<open>A solid gray image of 32 by 32 pixels.\<close>

definition solid_pixels :: image_data where
  "solid_pixels = \<lparr>img_width = 32, img_height = 32, img_data = replicate 4096 128\<rparr>"

definition solid_png :: image_file where
  "solid_png =
    \<lparr>file_name = ''g.png'', file_size = 8, file_type = ''image/png'',
     arrayBuffer = [0x89, 0x50, 0x4E, 0x47, 0x0D, 0x0A, 0x1A, 0x0A],
     width = 32, height = 32, imageData = solid_pixels, canvas = solid_pixels\<rparr>"

text \<open>
  An image of 13 by 3 gray pixels whose three rows are equal: the luminance rises by one
  every second column and jumps to 255 in the last column.
\<close>

definition ramp_row :: "byte list" where
  "ramp_row = [0, 0, 1, 1, 2, 2, 3, 3, 4, 4, 5, 5, 255]"

definition ramp_pixels :: image_data where
  "ramp_pixels =
    \<lparr>img_width = 13, img_height = 3,
     img_data = concat (map (\<lambda>v. [v, v, v, 255]) (ramp_row @ ramp_row @ ramp_row))\<rparr>"

definition ramp_png :: image_file where
  "ramp_png =
    \<lparr>file_name = ''r.png'', file_size = 8, file_type = ''image/png'',
     arrayBuffer = [0x89, 0x50, 0x4E, 0x47, 0x0D, 0x0A, 0x1A, 0x0A],
     width = 13, height = 3, imageData = ramp_pixels, canvas = ramp_pixels\<rparr>"

text \<open>
  A square JPEG of 1080 by 1080 pixels, without EXIF data and with an estimated quality
  of 60.
\<close>

definition square_jpeg :: image_file where
  "square_jpeg =
    \<lparr>file_name = ''d.jpg'', file_size = 4, file_type = ''image/jpeg'',
     arrayBuffer = [0xFF, 0xD8, 0xFF, 0xE0],
     width = 1080, height = 1080,
     imageData = \<lparr>img_width = 1080, img_height = 1080, img_data = replicate (4 * 1080 * 1080) 0\<rparr>,
     canvas = \<lparr>img_width = 1080, img_height = 1080, img_data = replicate (4 * 1080 * 1080) 0\<rparr>\<rparr>"

text \<open>
  An image file as the loader builds it: positive dimensions, the dimensions of the pixel
  buffer equal to those of the file, and four bytes per pixel. On such a file every read
  the checks make of the pixel buffer is in range.
\<close>

definition well_formed :: "image_file \<Rightarrow> bool" where
  "well_formed file =
    (0 < width file \<and> 0 < height file \<and>
     img_width (imageData file) = width file \<and> img_height (imageData file) = height file \<and>
     length (img_data (imageData file)) = 4 * width file * height file)"

section \<open>The example inputs are well formed\<close>

lemma examples_well_formed:
  "well_formed tiny_png" "well_formed tiny_jpeg" "well_formed tiny_gif" "well_formed speckled_png"
  "well_formed square_jpeg" "well_formed solid_png"
  by (simp_all add: well_formed_def tiny_png_def tiny_jpeg_def tiny_gif_def speckled_png_def
      tiny_pixels_def speckled_pixels_def square_jpeg_def
      solid_png_def solid_pixels_def)

lemma ramp_well_formed: "well_formed ramp_png"
  by (simp add: well_formed_def ramp_png_def ramp_pixels_def ramp_row_def)

section \<open>Properties of the byte sniffer\<close>

lemma has_bytes_at_nth:
  assumes "has_bytes_at bytes off sig" and "i < length sig"
  shows "byte_at bytes (off + i) = Some (sig ! i)"
proof -
  have l: "off + length sig \<le> length bytes" and t: "take (length sig) (drop off bytes) = sig"
    using assms(1) by (simp_all add: has_bytes_at_def)
  have "sig ! i = take (length sig) (drop off bytes) ! i" by (simp add: t)
  also have "\<dots> = bytes ! (off + i)" using assms(2) l by simp
  finally show ?thesis using assms(2) l by (simp add: byte_at_def)
qed

text \<open>
  The half of claim C3 that holds: a buffer that matches one of the four signatures of
  the table is reported with that signature's mime type.
\<close>

lemma detectFileType_of_matching_buffer:
  assumes "matches_signature bytes mime"
  shows "detectFileType bytes = Some mime"
proof -
  obtain sig where m: "map_of FILE_SIGNATURES mime = Some sig"
    and h: "has_bytes_at bytes 0 sig"
    and w: "mime = ''image/webp'' \<Longrightarrow> has_bytes_at bytes 8 WEBP_TAG"
    using assms by (auto simp add: matches_signature_def split: option.splits if_splits)
  have b: "i < length sig \<Longrightarrow> byte_at bytes i = Some (sig ! i)" for i
    using has_bytes_at_nth [OF h, of i] by simp
  consider (jpeg) "mime = ''image/jpeg''" "sig = [0xFF, 0xD8, 0xFF]"
    | (png) "mime = ''image/png''" "sig = [0x89, 0x50, 0x4E, 0x47, 0x0D, 0x0A, 0x1A, 0x0A]"
    | (gif) "mime = ''image/gif''" "sig = [0x47, 0x49, 0x46, 0x38]"
    | (webp) "mime = ''image/webp''" "sig = [0x52, 0x49, 0x46, 0x46]"
    using m by (auto simp add: FILE_SIGNATURES_def split: if_splits)
  then show ?thesis
  proof cases
    case jpeg
    then show ?thesis using b [of 0] b [of 1] b [of 2] by (simp add: detectFileType_def)
  next
    case png
    then show ?thesis using b [of 0] b [of 1] b [of 2] b [of 3] by (simp add: detectFileType_def)
  next
    case gif
    then show ?thesis using b [of 0] b [of 1] b [of 2] b [of 3] by (simp add: detectFileType_def)
  next
    case webp
    have t: "i < 4 \<Longrightarrow> byte_at bytes (8 + i) = Some (WEBP_TAG ! i)" for i
      using has_bytes_at_nth [OF w [OF webp(1)], of i] by (simp add: WEBP_TAG_def)
    show ?thesis
      using webp b [of 0] b [of 1] b [of 2] b [of 3] t [of 0] t [of 1] t [of 2] t [of 3]
      by (simp add: detectFileType_def WEBP_TAG_def)
  qed
qed

text \<open>
  Claim C3, at the buffer \<open>89 50 4E 47 00 00 00 00\<close>: the buffer is eight bytes long and
  matches none of the four signatures of the table (its last four bytes are not
  \<open>0D 0A 1A 0A\<close>), and the sniffer, which compares only the first four bytes of the PNG
  signature, reports \<open>image/png\<close> instead of no match.
\<close>

theorem detectFileType_png_prefix_only:
  "detectFileType [0x89, 0x50, 0x4E, 0x47, 0, 0, 0, 0] = Some ''image/png'' \<and>
   \<not> matches_signature [0x89, 0x50, 0x4E, 0x47, 0, 0, 0, 0] ''image/jpeg'' \<and>
   \<not> matches_signature [0x89, 0x50, 0x4E, 0x47, 0, 0, 0, 0] ''image/png'' \<and>
   \<not> matches_signature [0x89, 0x50, 0x4E, 0x47, 0, 0, 0, 0] ''image/gif'' \<and>
   \<not> matches_signature [0x89, 0x50, 0x4E, 0x47, 0, 0, 0, 0] ''image/webp''"
  by (simp add: detectFileType_def byte_at_def matches_signature_def FILE_SIGNATURES_def
      has_bytes_at_def WEBP_TAG_def)

section \<open>Properties of the JPEG quality estimate\<close>

lemma Math_round_of_int: "Math_round (of_int n) = n"
  by (simp add: Math_round_def)

lemma shift_or_bytes: "push_bit 8 (uint (a :: byte)) OR uint (b :: byte) = 256 * uint a + uint b"
proof -
  have t: "take_bit 8 (uint b) = uint b"
    by (rule take_bit_int_eq_self) (use uint_lt2p [of b] in simp_all)
  have "push_bit 8 (uint a) OR uint b = concat_bit 8 (uint b) (uint a)"
    by (simp add: concat_bit_def or.commute t)
  also have "\<dots> = uint b + push_bit 8 (uint a)"
    by (simp add: concat_bit_eq t)
  finally show ?thesis by (simp add: push_bit_eq_mult)
qed

lemma estimate_step_found:
  assumes "in_scan_window bytes i" and "dqt_segment_at bytes i"
  shows "estimateJpegQuality_from bytes i = Some (dqt_quality (uint (bytes ! (i + 5))))"
proof -
  have r: "i + 70 < length bytes" using assms by (simp add: in_scan_window_def)
  have q: "uint (bytes ! (i + 5)) \<noteq> 0" using assms by (simp add: dqt_segment_at_def uint_0_iff)
  have m1: "Math_round (100 - (unsigned k :: real) * 2) = 100 - 2 * uint k" for k :: byte
    using Math_round_of_int [of "100 - 2 * uint k"] by (simp add: mult.commute)
  have m2: "Math_round (200 - (unsigned k :: real) * 2) = 200 - 2 * uint k" for k :: byte
    using Math_round_of_int [of "200 - 2 * uint k"] by (simp add: mult.commute)
  show ?thesis
    using assms r q
    by (subst estimateJpegQuality_from.simps)
       (simp add: dqt_segment_at_def byte_at_def byte_num_def shift_or_bytes segment_length_def
          dqt_quality_def m1 m2 Let_def)
qed

lemma estimate_step_skip:
  assumes "\<not> dqt_segment_at bytes i" and "in_scan_window bytes i"
  shows "estimateJpegQuality_from bytes i = estimateJpegQuality_from bytes (i + 1)"
  using assms
  by (subst estimateJpegQuality_from.simps)
     (auto simp add: dqt_segment_at_def in_scan_window_def byte_at_def byte_num_def
        shift_or_bytes segment_length_def Let_def)

lemma estimate_step_end:
  assumes "\<not> in_scan_window bytes i"
  shows "estimateJpegQuality_from bytes i = None"
  using assms by (subst estimateJpegQuality_from.simps) (auto simp add: in_scan_window_def)

lemma estimate_none_from:
  "(\<And>j. k \<le> j \<Longrightarrow> in_scan_window bytes j \<Longrightarrow> \<not> dqt_segment_at bytes j) \<Longrightarrow>
   estimateJpegQuality_from bytes k = None"
proof (induction "length bytes - k" arbitrary: k)
  case 0
  then show ?case by (simp add: estimate_step_end in_scan_window_def)
next
  case (Suc n)
  show ?case
  proof (cases "in_scan_window bytes k")
    case True
    have "estimateJpegQuality_from bytes k = estimateJpegQuality_from bytes (k + 1)"
      using Suc.prems True by (simp add: estimate_step_skip)
    also have "\<dots> = None"
      using Suc.hyps Suc.prems by (intro Suc.hyps(1)) auto
    finally show ?thesis .
  next
    case False
    then show ?thesis by (simp add: estimate_step_end)
  qed
qed

lemma estimate_first_from:
  "k \<le> i \<Longrightarrow> in_scan_window bytes i \<Longrightarrow> dqt_segment_at bytes i \<Longrightarrow>
   (\<And>j. k \<le> j \<Longrightarrow> j < i \<Longrightarrow> \<not> dqt_segment_at bytes j) \<Longrightarrow>
   estimateJpegQuality_from bytes k = Some (dqt_quality (uint (bytes ! (i + 5))))"
proof (induction "i - k" arbitrary: k)
  case 0
  then have "k = i" by simp
  with 0 show ?case by (simp add: estimate_step_found)
next
  case (Suc n)
  have lt: "k < i" using Suc.hyps(2) by simp
  have "i + 70 < length bytes" using Suc.prems(2) by (simp add: in_scan_window_def)
  with lt have "in_scan_window bytes k" by (simp add: in_scan_window_def)
  moreover have "\<not> dqt_segment_at bytes k" using Suc.prems(4) lt by simp
  ultimately have "estimateJpegQuality_from bytes k = estimateJpegQuality_from bytes (k + 1)"
    by (simp add: estimate_step_skip)
  also have "\<dots> = Some (dqt_quality (uint (bytes ! (i + 5))))"
    using Suc.hyps(2) Suc.prems lt by (intro Suc.hyps(1)) auto
  finally show ?case .
qed

lemma dqt_quality_range: "1 \<le> dqt_quality q \<and> dqt_quality q \<le> 100"
  by (simp add: dqt_quality_def)

text \<open>
  Claim C4, as amended. When a usable DQT segment stands at an offset \<open>i\<close> that the scan
  visits (\<open>i + 70 < length bytes\<close>), the estimate is the piecewise function of the DC
  coefficient \<open>q0\<close> of the first such segment, clamped to 1..100, and so lies in 1..100.
  When no usable DQT segment stands at a visited offset, no estimate is produced.
\<close>

theorem estimateJpegQuality_spec:
  "(\<forall>i. in_scan_window bytes i \<and> dqt_segment_at bytes i \<and> (\<forall>j<i. \<not> dqt_segment_at bytes j) \<longrightarrow>
        estimateJpegQuality bytes = Some (dqt_quality (uint (bytes ! (i + 5)))) \<and>
        1 \<le> dqt_quality (uint (bytes ! (i + 5))) \<and> dqt_quality (uint (bytes ! (i + 5))) \<le> 100) \<and>
   ((\<forall>i. in_scan_window bytes i \<longrightarrow> \<not> dqt_segment_at bytes i) \<longrightarrow>
        estimateJpegQuality bytes = None)"
  unfolding estimateJpegQuality_def
  using estimate_first_from [of 0 _ bytes] estimate_none_from [of 0 bytes] dqt_quality_range
  by auto

text \<open>
  Claim C4, as amended, on a buffer of 76 bytes that starts with a DQT segment of length
  67 and DC coefficient 60 (estimate \<open>200 - 2 * 60 = 80\<close>), and on its first six bytes alone,
  where the scan visits no offset.
\<close>

theorem estimateJpegQuality_spec_witness:
  "estimateJpegQuality ([0xFF, 0xDB, 0x00, 0x43, 0x00, 60] @ replicate 70 0) = Some 80 \<and>
   estimateJpegQuality [0xFF, 0xDB, 0x00, 0x43, 0x00, 60] = None"
proof -
  let ?b = "[0xFF, 0xDB, 0x00, 0x43, 0x00, 60] @ replicate 70 (0 :: byte)"
  let ?c = "[0xFF, 0xDB, 0x00, 0x43, 0x00, 60 :: byte]"
  have f: "in_scan_window ?b 0 \<and> dqt_segment_at ?b 0 \<and> (\<forall>j<0. \<not> dqt_segment_at ?b j)"
    by (simp add: in_scan_window_def dqt_segment_at_def segment_length_def)
  have n: "\<forall>i. in_scan_window ?c i \<longrightarrow> \<not> dqt_segment_at ?c i"
    by (simp add: in_scan_window_def)
  have q: "dqt_quality (uint (?b ! (0 + 5))) = 80"
    by (simp add: dqt_quality_def)
  from estimateJpegQuality_spec [of ?b] f q have "estimateJpegQuality ?b = Some 80"
    by metis
  moreover from estimateJpegQuality_spec [of ?c] n have "estimateJpegQuality ?c = None"
    by blast
  ultimately show ?thesis by blast
qed

text \<open>
  Claim C4 as first stated, without the offsets the scan visits, fails on the buffer of 70
  bytes that is exactly one DQT segment: the marker, the length 67, the DC coefficient 60
  and the 64 bytes that complete the table. A usable DQT segment stands at offset 0, the
  piecewise function gives 80, and the program produces no estimate, since its loop
  \<open>for (i = 0; i < bytes.length - 70; i++)\<close> visits no offset of a buffer of 70 bytes.
\<close>

theorem estimateJpegQuality_window_counterexample:
  "length ([0xFF, 0xDB, 0x00, 0x43, 0x00, 60] @ replicate 64 (0 :: byte)) = 70 \<and>
   dqt_segment_at ([0xFF, 0xDB, 0x00, 0x43, 0x00, 60] @ replicate 64 0) 0 \<and>
   segment_length ([0xFF, 0xDB, 0x00, 0x43, 0x00, 60] @ replicate 64 0) 0 = 67 \<and>
   dqt_quality (uint (([0xFF, 0xDB, 0x00, 0x43, 0x00, 60] @ replicate 64 (0 :: byte)) ! 5)) = 80 \<and>
   estimateJpegQuality ([0xFF, 0xDB, 0x00, 0x43, 0x00, 60] @ replicate 64 0) = None"
proof -
  let ?b = "[0xFF, 0xDB, 0x00, 0x43, 0x00, 60] @ replicate 64 (0 :: byte)"
  have "estimateJpegQuality_from ?b 0 = None"
    by (subst estimateJpegQuality_from.simps) simp
  then show ?thesis
    by (simp add: estimateJpegQuality_def dqt_segment_at_def segment_length_def dqt_quality_def)
qed

section \<open>Properties of the uniform-area check\<close>























section \<open>Properties of the pixel checks\<close>









lemma foldl_update_length:
  "length (foldl (\<lambda>res p. res[g p := F (g p)]) res ps) = length res"
  by (induction ps arbitrary: res) simp_all

























lemma checkNoiseConsistency_id: "check_id (checkNoiseConsistency hm file) = ''noise-consistency''"
  by (simp add: checkNoiseConsistency_def Let_def split_def)

lemma checkEdgeInconsistency_id: "check_id (checkEdgeInconsistency hm file) = ''edge-consistency''"
  by (simp add: checkEdgeInconsistency_def Let_def split_def)

lemma checkCloneDetection_id: "check_id (checkCloneDetection file deep) = ''clone-detection''"
  by (simp add: checkCloneDetection_def Let_def split_def)

text \<open>
  Claim C10. For every image and every value of the deep-scan flag, the list of the pixel
  stage holds exactly one result with the id \<open>clone-detection\<close>; the result of the clone
  check carries this id on both of its paths (the too-small skip included), so the lookup
  of the deep rescan finds it and never yields \<open>undefined\<close>.
\<close>

theorem clone_detection_result_unique:
  "length (filter (\<lambda>c. check_id c = ''clone-detection'') (runPixelChecks hm file deep)) = 1 \<and>
   check_id (checkCloneDetection file deep) = ''clone-detection'' \<and>
   find (\<lambda>c. check_id c = ''clone-detection'') (runPixelChecks hm file deep) =
     Some (checkCloneDetection file deep) \<and>
   runDeepCloneScan file = Some (checkCloneDetection file True)"
  by (simp add: runPixelChecks_def runDeepCloneScan_def checkNoiseConsistency_id
      checkEdgeInconsistency_id checkCloneDetection_id)

text \<open>
  Claim C10 on the one-pixel image, which takes the too-small path of the clone check.
\<close>

theorem clone_detection_witness:
  "map check_id (runPixelChecks grayscaleToHeatmap tiny_png True) =
     [''noise-consistency'', ''edge-consistency'', ''clone-detection''] \<and>
   (\<exists>c. runDeepCloneScan tiny_png = Some c \<and> check_id c = ''clone-detection'' \<and>
        summary c = ''Image too small for clone analysis'')"
proof -
  have s: "summary (checkCloneDetection tiny_png True) = ''Image too small for clone analysis''"
    by (simp add: checkCloneDetection_def tiny_png_def Let_def)
  show ?thesis
    using clone_detection_result_unique [of grayscaleToHeatmap tiny_png True]
    by (simp add: runPixelChecks_def checkNoiseConsistency_id checkEdgeInconsistency_id s)
qed


text \<open>
  Claim C9. Two runs of the noise check, and of the edge check, on the same image with two
  colour maps agree on status, summary and details: only the overlay depends on the colour
  map.
\<close>

theorem color_map_noninterference:
  "status (checkNoiseConsistency hm1 file) = status (checkNoiseConsistency hm2 file) \<and>
   summary (checkNoiseConsistency hm1 file) = summary (checkNoiseConsistency hm2 file) \<and>
   details (checkNoiseConsistency hm1 file) = details (checkNoiseConsistency hm2 file) \<and>
   status (checkEdgeInconsistency hm1 file) = status (checkEdgeInconsistency hm2 file) \<and>
   summary (checkEdgeInconsistency hm1 file) = summary (checkEdgeInconsistency hm2 file) \<and>
   details (checkEdgeInconsistency hm1 file) = details (checkEdgeInconsistency hm2 file)"
  by (simp add: checkNoiseConsistency_def checkEdgeInconsistency_def Let_def split_def)

lemma checkEdgeInconsistency_overlay:
  "overlay (checkEdgeInconsistency hm file) = Some (hm (sobel_edgeMap file) (width file) (height file) True)"
  by (simp add: checkEdgeInconsistency_def Let_def split_def)

lemma tiny_edge_overlay:
  "overlay (checkEdgeInconsistency grayscaleToHeatmap tiny_png) =
     Some \<lparr>img_width = 1, img_height = 1, img_data = [0, 0, 255, 55]\<rparr>"
  "overlay (checkEdgeInconsistency blank_color_map tiny_png) =
     Some \<lparr>img_width = 1, img_height = 1, img_data = [0, 0, 0, 0]\<rparr>"
proof -
  have em: "sobel_edgeMap tiny_png = [0]"
    by (simp add: sobel_edgeMap_def tiny_png_def tiny_pixels_def Let_def)
  have wh: "width tiny_png = 1" "height tiny_png = 1"
    by (simp_all add: tiny_png_def)
  have "grayscaleToHeatmap [0] 1 1 True = \<lparr>img_width = 1, img_height = 1, img_data = [0, 0, 255, 55]\<rparr>"
    by (simp add: grayscaleToHeatmap_def heat_paint_def clamp_byte_def numeral_eq_Suc)
  then show "overlay (checkEdgeInconsistency grayscaleToHeatmap tiny_png) =
     Some \<lparr>img_width = 1, img_height = 1, img_data = [0, 0, 255, 55]\<rparr>"
    by (simp add: checkEdgeInconsistency_overlay em wh)
  have "blank_color_map [0] 1 1 True = \<lparr>img_width = 1, img_height = 1, img_data = [0, 0, 0, 0]\<rparr>"
    by (simp add: blank_color_map_def numeral_eq_Suc)
  then show "overlay (checkEdgeInconsistency blank_color_map tiny_png) =
     Some \<lparr>img_width = 1, img_height = 1, img_data = [0, 0, 0, 0]\<rparr>"
    by (simp add: checkEdgeInconsistency_overlay em wh)
qed

text \<open>
  Claim C9 on the one-pixel PNG, with the heatmap of the program and with the colour map
  that paints nothing: the overlays differ, status, summary and details do not.
\<close>

theorem color_map_noninterference_witness:
  "overlay (checkEdgeInconsistency grayscaleToHeatmap tiny_png) \<noteq>
     overlay (checkEdgeInconsistency blank_color_map tiny_png) \<and>
   status (checkEdgeInconsistency grayscaleToHeatmap tiny_png) =
     status (checkEdgeInconsistency blank_color_map tiny_png) \<and>
   summary (checkEdgeInconsistency grayscaleToHeatmap tiny_png) =
     summary (checkEdgeInconsistency blank_color_map tiny_png) \<and>
   details (checkEdgeInconsistency grayscaleToHeatmap tiny_png) =
     details (checkEdgeInconsistency blank_color_map tiny_png)"
  using color_map_noninterference [of grayscaleToHeatmap tiny_png blank_color_map]
  by (simp add: tiny_edge_overlay)

section \<open>Properties of the error level analysis\<close>

lemma performELA_non_jpeg:
  assumes "detectFileType (arrayBuffer file) \<noteq> Some ''image/jpeg''"
  shows "performELA re file =
    Inr (Some \<lparr>check_id = ''ela'',
               check_name = ''Error Level Analysis'',
               status = Info,
               summary = ''ELA not applicable (non-JPEG)'',
               details = [(''Format'', DString (case detectFileType (arrayBuffer file) of
                                                  None \<Rightarrow> ''Unknown'' | Some t \<Rightarrow> t)),
                          (''Note'', DString ''ELA is designed for JPEG images'')],
               confidence = 0.3,
               check_notes = ''Error Level Analysis is most meaningful for JPEG images. For PNG or other formats, the analysis would not provide useful results.'',
               overlay = None,
               regions = None\<rparr>)"
  using assms by (simp add: performELA_def Let_def)

lemma performELA_reencode_fails:
  assumes "detectFileType (arrayBuffer file) = Some ''image/jpeg''"
    and "re (canvas file) (real ELA_QUALITY / 100) = Inl e"
  shows "performELA re file =
    Inr (Some \<lparr>check_id = ''ela'',
               check_name = ''Error Level Analysis'',
               status = Info,
               summary = ''ELA analysis failed'',
               details = [(''Error'', DString (case e of ErrorObject message \<Rightarrow> message
                                                         | OtherValue \<Rightarrow> ''Unknown error''))],
               confidence = 0.1,
               check_notes = ''Could not perform Error Level Analysis. This may be due to image format issues or browser limitations.'',
               overlay = None,
               regions = None\<rparr>)"
  using assms by (simp add: performELA_def ela_try_def Let_def)

lemma performELA_resolves: "\<exists>r. performELA re file = Inr (Some r)"
  by (simp add: performELA_def ela_try_def Let_def split: sum.splits)

text \<open>
  Claim C7. The ELA check always resolves with a result and never rejects. For an input
  that is not a JPEG the result is the informational "not applicable" result, the same
  whatever the re-encoder is (the re-encoder is not consulted). For a JPEG whose
  re-encoding throws, the result has status \<open>info\<close>, confidence 0.1 and the error's
  description in its details.
\<close>

theorem ela_never_aborts:
  "(\<exists>r. performELA re file = Inr (Some r)) \<and>
   (detectFileType (arrayBuffer file) \<noteq> Some ''image/jpeg'' \<longrightarrow>
      performELA re file = performELA re' file \<and>
      (\<exists>r. performELA re file = Inr (Some r) \<and> status r = Info \<and>
           summary r = ''ELA not applicable (non-JPEG)'' \<and> confidence r = 0.3 \<and>
           overlay r = None)) \<and>
   (detectFileType (arrayBuffer file) = Some ''image/jpeg'' \<and>
    re (canvas file) (real ELA_QUALITY / 100) = Inl e \<longrightarrow>
      (\<exists>r. performELA re file = Inr (Some r) \<and> status r = Info \<and> confidence r = 0.1 \<and>
           summary r = ''ELA analysis failed'' \<and>
           details r = [(''Error'', DString (case e of ErrorObject message \<Rightarrow> message
                                                     | OtherValue \<Rightarrow> ''Unknown error''))]))"
proof (intro conjI impI)
  show "\<exists>r. performELA re file = Inr (Some r)" by (rule performELA_resolves)
next
  assume a: "detectFileType (arrayBuffer file) \<noteq> Some ''image/jpeg''"
  show "performELA re file = performELA re' file"
    by (simp add: performELA_non_jpeg [OF a])
  show "\<exists>r. performELA re file = Inr (Some r) \<and> status r = Info \<and>
           summary r = ''ELA not applicable (non-JPEG)'' \<and> confidence r = 0.3 \<and> overlay r = None"
    by (simp add: performELA_non_jpeg [OF a])
next
  assume "detectFileType (arrayBuffer file) = Some ''image/jpeg'' \<and>
          re (canvas file) (real ELA_QUALITY / 100) = Inl e"
  then show "\<exists>r. performELA re file = Inr (Some r) \<and> status r = Info \<and> confidence r = 0.1 \<and>
           summary r = ''ELA analysis failed'' \<and>
           details r = [(''Error'', DString (case e of ErrorObject message \<Rightarrow> message
                                                     | OtherValue \<Rightarrow> ''Unknown error''))]"
    by (simp add: performELA_reencode_fails)
qed

lemma tiny_png_type: "detectFileType (arrayBuffer tiny_png) = Some ''image/png''"
  by (simp add: tiny_png_def detectFileType_def byte_at_def)

lemma tiny_jpeg_type: "detectFileType (arrayBuffer tiny_jpeg) = Some ''image/jpeg''"
  by (simp add: tiny_jpeg_def detectFileType_def byte_at_def)

text \<open>
  Claim C7 on the one-pixel PNG and on the one-pixel JPEG with the rejecting re-encoder.
\<close>

theorem ela_never_aborts_witness:
  "(\<exists>r. performELA failing_reencoder tiny_png = Inr (Some r) \<and> status r = Info \<and>
        summary r = ''ELA not applicable (non-JPEG)'' \<and> confidence r = 0.3 \<and> overlay r = None) \<and>
   performELA failing_reencoder tiny_png = performELA identity_reencoder tiny_png \<and>
   (\<exists>r. performELA failing_reencoder tiny_jpeg = Inr (Some r) \<and> status r = Info \<and>
        confidence r = 0.1 \<and> summary r = ''ELA analysis failed'' \<and>
        details r = [(''Error'', DString ''Failed to create blob'')])"
proof -
  have p: "detectFileType (arrayBuffer tiny_png) \<noteq> Some ''image/jpeg''"
    by (simp add: tiny_png_type)
  have j: "detectFileType (arrayBuffer tiny_jpeg) = Some ''image/jpeg'' \<and>
           failing_reencoder (canvas tiny_jpeg) (real ELA_QUALITY / 100) =
             Inl (ErrorObject ''Failed to create blob'')"
    by (simp add: tiny_jpeg_type failing_reencoder_def)
  from ela_never_aborts [of failing_reencoder tiny_png identity_reencoder] p
  have 1: "performELA failing_reencoder tiny_png = performELA identity_reencoder tiny_png"
    and 2: "\<exists>r. performELA failing_reencoder tiny_png = Inr (Some r) \<and> status r = Info \<and>
        summary r = ''ELA not applicable (non-JPEG)'' \<and> confidence r = 0.3 \<and> overlay r = None"
    by blast+
  from ela_never_aborts [of failing_reencoder tiny_jpeg failing_reencoder "ErrorObject ''Failed to create blob''"] j
  have 3: "\<exists>r. performELA failing_reencoder tiny_jpeg = Inr (Some r) \<and> status r = Info \<and>
        confidence r = 0.1 \<and> summary r = ''ELA analysis failed'' \<and>
        details r = [(''Error'', DString ''Failed to create blob'')]"
    by simp
  from 1 2 3 show ?thesis by blast
qed

section \<open>Properties of the social media heuristic\<close>

lemma score_add_signal: "score (add_signal s n st) = score st + n"
  by (simp add: add_signal_def)

lemma score_social_exif: "score (social_exif e st) \<le> score st + 2"
  by (simp add: social_exif_def score_add_signal)

lemma score_social_dimensions: "score (social_dimensions ps m st) \<le> score st + 2"
  by (induction ps m st rule: social_dimensions.induct) (simp_all add: score_add_signal)

lemma score_social_quality: "score (social_quality t q st) \<le> score st + 2"
  by (simp add: social_quality_def score_add_signal Let_def split: option.splits int_or_nan.splits)

lemma score_social_aspect: "score (social_aspect a st) \<le> score st + 1"
  by (simp add: social_aspect_def score_add_signal Let_def) argo

text \<open>
  The four checks add at most 2, 2, 2 and 1: the three aspect-ratio windows are disjoint.
\<close>

lemma social_score_le_7: "score (social_signals file e q) \<le> 7"
proof -
  let ?st1 = "social_exif e \<lparr>signals = [], score = 0\<rparr>"
  let ?st2 = "social_dimensions SOCIAL_MEDIA_DIMENSIONS (max (width file) (height file)) ?st1"
  let ?st3 = "social_quality (detectFileType (arrayBuffer file)) q ?st2"
  have "score ?st1 \<le> 2" using score_social_exif [of e "\<lparr>signals = [], score = 0\<rparr>"] by simp
  moreover have "score ?st2 \<le> score ?st1 + 2" by (rule score_social_dimensions)
  moreover have "score ?st3 \<le> score ?st2 + 2" by (rule score_social_quality)
  moreover have "score (social_aspect (real (width file) / real (height file)) ?st3) \<le> score ?st3 + 1"
    by (rule score_social_aspect)
  ultimately show ?thesis by (simp add: social_signals_def Let_def)
qed

text \<open>
  Claim C8. The score of the social-media heuristic never exceeds 8, and status, summary
  and confidence follow from the score: from 4 on \<open>info\<close>, "Likely re-shared through social
  media" and 0.7; from 2 on \<open>info\<close>, "Some signs of possible social media sharing" and 0.5;
  below 2 \<open>ok\<close>, "No strong indicators of social media reupload" and 0.4.
\<close>

theorem social_score_bounded_and_thresholds:
  "score (social_signals file e q) \<le> 8 \<and>
   status (checkSocialMediaHint file e q) =
     (if score (social_signals file e q) \<ge> 4 then Info
      else if score (social_signals file e q) \<ge> 2 then Info else Ok) \<and>
   summary (checkSocialMediaHint file e q) =
     (if score (social_signals file e q) \<ge> 4 then ''Likely re-shared through social media''
      else if score (social_signals file e q) \<ge> 2 then ''Some signs of possible social media sharing''
      else ''No strong indicators of social media reupload'') \<and>
   confidence (checkSocialMediaHint file e q) =
     (if score (social_signals file e q) \<ge> 4 then 0.7
      else if score (social_signals file e q) \<ge> 2 then 0.5 else 0.4)"
  using social_score_le_7 [of "file" e q]
  by (simp add: checkSocialMediaHint_def Let_def)

lemma square_jpeg_signals:
  "social_signals square_jpeg None (Some (Num 60)) =
    \<lparr>signals = [''No EXIF metadata (stripped by most platforms)'',
                ''Max dimension 1080px (common for Instagram)'',
                ''JPEG quality ~60% (social platforms often recompress)'',
                ''Square aspect ratio (1:1) - common on Instagram''],
     score = 7\<rparr>"
  by (simp add: social_signals_def social_exif_def add_signal_def SOCIAL_MEDIA_DIMENSIONS_def
      social_quality_def social_aspect_def Let_def square_jpeg_def detectFileType_def byte_at_def
      show_nat.simps show_int_def digit_char_def)

lemma tiny_png_signals:
  "social_signals tiny_png (Some [(''Make'', DString ''Canon'')]) None = \<lparr>signals = [''Square aspect ratio (1:1) - common on Instagram''], score = 1\<rparr>"
  by (simp add: social_signals_def social_exif_def add_signal_def SOCIAL_MEDIA_DIMENSIONS_def
      social_quality_def social_aspect_def Let_def tiny_png_def detectFileType_def byte_at_def)

text \<open>
  Claim C8 on two inputs: the square JPEG of 1080 pixels without EXIF data and with
  quality 60 reaches the score 7 (likely re-shared, 0.7); the one-pixel PNG with EXIF data
  scores 1 (no strong indicators, 0.4).
\<close>

theorem social_score_witness:
  "score (social_signals square_jpeg None (Some (Num 60))) = 7 \<and>
   status (checkSocialMediaHint square_jpeg None (Some (Num 60))) = Info \<and>
   summary (checkSocialMediaHint square_jpeg None (Some (Num 60))) = ''Likely re-shared through social media'' \<and>
   confidence (checkSocialMediaHint square_jpeg None (Some (Num 60))) = 0.7 \<and>
   score (social_signals tiny_png (Some [(''Make'', DString ''Canon'')]) None) = 1 \<and>
   status (checkSocialMediaHint tiny_png (Some [(''Make'', DString ''Canon'')]) None) = Ok \<and>
   confidence (checkSocialMediaHint tiny_png (Some [(''Make'', DString ''Canon'')]) None) = 0.4"
  using social_score_bounded_and_thresholds [of square_jpeg None "Some (Num 60)"]
        social_score_bounded_and_thresholds [of tiny_png "Some [(''Make'', DString ''Canon'')]" None]
  by (simp add: square_jpeg_signals tiny_png_signals)

section \<open>Properties of the pipeline\<close>

lemma count_status_total:
  "count_status Ok cs + count_status Warn cs + count_status Fail cs + count_status Info cs = length cs"
proof (induction cs)
  case Nil
  show ?case by (simp add: count_status_def)
next
  case (Cons c cs)
  then show ?case by (cases "status c") (simp_all add: count_status_def)
qed

text \<open>
  The pipeline resolves with a report whenever the ELA stage does not reject; the report
  is built from the list of all checks.
\<close>

lemma runForensicPipeline_report:
  assumes "runForensicPipeline env imageFile deep = Inr r"
  shows "report_summary r =
           \<lparr>okCount = count_status Ok (checks r), warnCount = count_status Warn (checks r),
            failCount = count_status Fail (checks r), infoCount = count_status Info (checks r)\<rparr>"
    and "overallStatus r = verdict_of_counts (report_summary r)"
proof -
  obtain elaResults where e: "runELACheck (reencodeJpeg env) imageFile = Inr elaResults"
    using assms by (cases "runELACheck (reencodeJpeg env) imageFile")
      (simp_all add: runForensicPipeline_def Let_def)
  have r: "r = (case runForensicPipeline env imageFile deep of Inr x \<Rightarrow> x)"
    using assms by simp
  show "report_summary r =
           \<lparr>okCount = count_status Ok (checks r), warnCount = count_status Warn (checks r),
            failCount = count_status Fail (checks r), infoCount = count_status Info (checks r)\<rparr>"
    unfolding r by (simp add: runForensicPipeline_def Let_def e)
  show "overallStatus r = verdict_of_counts (report_summary r)"
    unfolding r by (simp add: runForensicPipeline_def Let_def e verdict_of_counts_def)
qed

text \<open>
  Claim C1. The overall verdict of every report the pipeline produces is the function
  \<open>verdict_of_counts\<close> of the report's four status counts: suspicious when the fail count
  is positive or the warn count is at least 3, else review when the warn count is positive,
  else clean. Two reports with the same counts have the same verdict, whatever their other
  fields are.
\<close>

theorem verdict_pure_function_of_counts:
  "(runForensicPipeline env imageFile deep = Inr r \<longrightarrow>
      overallStatus r =
        (if failCount (report_summary r) > 0 \<or> warnCount (report_summary r) \<ge> 3 then Suspicious
         else if warnCount (report_summary r) > 0 then Review
         else Clean)) \<and>
   (runForensicPipeline env imageFile deep = Inr r \<and>
    runForensicPipeline env' imageFile' deep' = Inr r' \<and>
    report_summary r = report_summary r' \<longrightarrow>
      overallStatus r = overallStatus r')"
  using runForensicPipeline_report(2) [of env imageFile deep r]
        runForensicPipeline_report(2) [of env' imageFile' deep' r']
  by (auto simp add: verdict_of_counts_def)

text \<open>
  Claim C2. In every report the pipeline produces, the four status counts add up to the
  length of the list of checks.
\<close>

theorem counts_sum_to_number_of_checks:
  "runForensicPipeline env imageFile deep = Inr r \<Longrightarrow>
   okCount (report_summary r) + warnCount (report_summary r) +
   failCount (report_summary r) + infoCount (report_summary r) = length (checks r)"
  using runForensicPipeline_report(1) [of env imageFile deep r] count_status_total [of "checks r"]
  by simp

lemma tiny_gif_type: "detectFileType (arrayBuffer tiny_gif) = Some ''image/gif''"
  by (simp add: tiny_gif_def detectFileType_def byte_at_def)

text \<open>The statuses of the stages on an image of one pixel that is not a JPEG.\<close>

lemma one_pixel_statuses:
  assumes "width file = 1" and "height file = 1" and "imageData file = tiny_pixels"
    and "detectFileType (arrayBuffer file) \<noteq> Some ''image/jpeg''"
  shows "map status (runCompressionChecks file) = [Info]"
    and "map status (runPixelChecks hm file deep) = [Info, Ok, Info]"
    and "pipeline_jpegQuality (runCompressionChecks file) = None"
    and "score (social_signals file None q) = 3"
proof -
  have u: "analyzeUniformity (imageData file) = (0, [])"
    using assms by (simp add: tiny_pixels_def analyzeUniformity_def)
  have cu: "status (checkUniformAreas file) = Info" "check_id (checkUniformAreas file) = ''uniform-areas''"
    by (simp_all add: checkUniformAreas_def u Let_def)
  have rc: "runCompressionChecks file = [checkUniformAreas file]"
    using assms by (simp add: runCompressionChecks_def checkJpegQuality_def checkDoubleCompression_def)
  show "map status (runCompressionChecks file) = [Info]"
    by (simp add: rc cu)
  show "pipeline_jpegQuality (runCompressionChecks file) = None"
    by (simp add: rc pipeline_jpegQuality_def cu)
  have n: "status (checkNoiseConsistency hm file) = Info"
    using assms by (simp add: checkNoiseConsistency_def Let_def)
  have em: "sobel_edgeMap file = [0]"
    using assms by (simp add: sobel_edgeMap_def tiny_pixels_def Let_def)
  have er: "strongEdgeRatio file = 0"
    using assms by (simp add: strongEdgeRatio_def em edge_meanEdge_def edge_stdEdge_def
        edge_sum_count_def edge_strongCount_def Let_def)
  have e: "status (checkEdgeInconsistency hm file) = Ok"
    by (simp add: checkEdgeInconsistency_def er Let_def)
  have c: "status (checkCloneDetection file deep) = Info"
    using assms by (simp add: checkCloneDetection_def Let_def)
  show "map status (runPixelChecks hm file deep) = [Info, Ok, Info]"
    by (simp add: runPixelChecks_def n e c)
  show "score (social_signals file None q) = 3"
    using assms
    by (simp add: social_signals_def social_exif_def add_signal_def SOCIAL_MEDIA_DIMENSIONS_def
        social_quality_def social_aspect_def Let_def split: option.splits int_or_nan.splits)
qed

lemma count_status_map:
  "count_status s cs = length (filter (\<lambda>x. x = s) (map status cs))"
  by (simp add: count_status_def filter_map comp_def)

lemma runForensicPipeline_checks:
  assumes "runForensicPipeline env imageFile deep = Inr r"
  shows "\<exists>ela. performELA (reencodeJpeg env) imageFile = Inr (Some ela) \<and>
           checks r = fileResults env @ metadataResults env @ runCompressionChecks imageFile @
             runPixelChecks grayscaleToHeatmap imageFile deep @ [ela] @
             runSocialMediaCheck imageFile (exifData env)
               (pipeline_jpegQuality (runCompressionChecks imageFile))"
proof -
  obtain ela where e: "performELA (reencodeJpeg env) imageFile = Inr (Some ela)"
    using performELA_resolves by blast
  have "r = (case runForensicPipeline env imageFile deep of Inr x \<Rightarrow> x)"
    using assms by simp
  then have "checks r = fileResults env @ metadataResults env @ runCompressionChecks imageFile @
             runPixelChecks grayscaleToHeatmap imageFile deep @ [ela] @
             runSocialMediaCheck imageFile (exifData env)
               (pipeline_jpegQuality (runCompressionChecks imageFile))"
    by (simp add: runForensicPipeline_def runELACheck_def e Let_def)
  with e show ?thesis by blast
qed

lemma runForensicPipeline_resolves: "\<exists>r. runForensicPipeline env imageFile deep = Inr r"
proof -
  obtain ela where e: "performELA (reencodeJpeg env) imageFile = Inr (Some ela)"
    using performELA_resolves by blast
  show ?thesis by (simp add: runForensicPipeline_def runELACheck_def e Let_def)
qed

lemma one_pixel_report:
  assumes "width file = 1" and "height file = 1" and "imageData file = tiny_pixels"
    and "detectFileType (arrayBuffer file) \<noteq> Some ''image/jpeg''"
    and "fileResults env = [type_mismatch_warning]" and "metadataResults env = []"
    and "exifData env = None"
    and "runForensicPipeline env file deep = Inr r"
  shows "map status (checks r) = [Warn, Info, Info, Ok, Info, Info, Info]"
proof -
  obtain ela where e: "performELA (reencodeJpeg env) file = Inr (Some ela)"
    and c: "checks r = fileResults env @ metadataResults env @ runCompressionChecks file @
             runPixelChecks grayscaleToHeatmap file deep @ [ela] @
             runSocialMediaCheck file (exifData env) (pipeline_jpegQuality (runCompressionChecks file))"
    using runForensicPipeline_checks [OF assms(8)] by blast
  have s: "status ela = Info"
    using e performELA_non_jpeg [OF assms(4), of "reencodeJpeg env"] by auto
  have so: "status (checkSocialMediaHint file None None) = Info"
    by (simp add: checkSocialMediaHint_def Let_def one_pixel_statuses(4) [OF assms(1-4)])
  show ?thesis
    by (simp add: c assms(5-7) one_pixel_statuses [OF assms(1-4)] s runSocialMediaCheck_def so
        type_mismatch_warning_def)
qed

text \<open>
  Claim C1 on two runs: the one-pixel PNG and the one-pixel GIF, in two environments.
  The reports differ in file name and timestamp, have the same counts (one warning, so the
  verdict is review), and the same verdict.
\<close>

theorem verdict_witness:
  "\<exists>r r'. runForensicPipeline env0 tiny_png False = Inr r \<and>
          runForensicPipeline env1 tiny_gif True = Inr r' \<and>
          report_summary r = \<lparr>okCount = 1, warnCount = 1, failCount = 0, infoCount = 5\<rparr> \<and>
          report_summary r' = report_summary r \<and>
          filename r \<noteq> filename r' \<and> timestamp r \<noteq> timestamp r' \<and>
          overallStatus r = Review \<and> overallStatus r' = Review"
proof -
  obtain r where r: "runForensicPipeline env0 tiny_png False = Inr r"
    using runForensicPipeline_resolves by blast
  obtain r' where r': "runForensicPipeline env1 tiny_gif True = Inr r'"
    using runForensicPipeline_resolves by blast
  have st: "map status (checks r) = [Warn, Info, Info, Ok, Info, Info, Info]"
    by (rule one_pixel_report [OF _ _ _ _ _ _ _ r])
       (simp_all add: tiny_png_def env0_def tiny_png_type [unfolded tiny_png_def, simplified])
  have st': "map status (checks r') = [Warn, Info, Info, Ok, Info, Info, Info]"
    by (rule one_pixel_report [OF _ _ _ _ _ _ _ r'])
       (simp_all add: tiny_gif_def env1_def tiny_gif_type [unfolded tiny_gif_def, simplified])
  have s: "report_summary r = \<lparr>okCount = 1, warnCount = 1, failCount = 0, infoCount = 5\<rparr>"
    by (simp add: runForensicPipeline_report(1) [OF r] count_status_map st)
  have s': "report_summary r' = \<lparr>okCount = 1, warnCount = 1, failCount = 0, infoCount = 5\<rparr>"
    by (simp add: runForensicPipeline_report(1) [OF r'] count_status_map st')
  have f: "filename r \<noteq> filename r' \<and> timestamp r \<noteq> timestamp r'"
  proof -
    have "r = (case runForensicPipeline env0 tiny_png False of Inr x \<Rightarrow> x)"
         "r' = (case runForensicPipeline env1 tiny_gif True of Inr x \<Rightarrow> x)"
      using r r' by simp_all
    then show ?thesis
      using runForensicPipeline_resolves [of env0 tiny_png False]
            runForensicPipeline_resolves [of env1 tiny_gif True]
      by (auto simp add: runForensicPipeline_def Let_def tiny_png_def tiny_gif_def env0_def env1_def
          split: sum.splits)
  qed
  have v: "overallStatus r = Review"
    using verdict_pure_function_of_counts [of env0 tiny_png False r env1 tiny_gif True r'] r s
    by simp
  have "report_summary r = report_summary r'"
    by (simp add: s s')
  then have v': "overallStatus r = overallStatus r'"
    using verdict_pure_function_of_counts [of env0 tiny_png False r env1 tiny_gif True r'] r r'
    by blast
  from v v' have v'': "overallStatus r' = Review" by simp
  from r r' s s' f v v'' show ?thesis by auto
qed

text \<open>Claim C2 on the run on the one-pixel PNG: seven checks, and counts that add up to 7.\<close>

theorem counts_sum_witness:
  "\<exists>r. runForensicPipeline env0 tiny_png False = Inr r \<and> length (checks r) = 7 \<and>
       okCount (report_summary r) + warnCount (report_summary r) +
       failCount (report_summary r) + infoCount (report_summary r) = 7"
proof -
  obtain r where r: "runForensicPipeline env0 tiny_png False = Inr r"
    using runForensicPipeline_resolves by blast
  have "map status (checks r) = [Warn, Info, Info, Ok, Info, Info, Info]"
    by (rule one_pixel_report [OF _ _ _ _ _ _ _ r])
       (simp_all add: tiny_png_def env0_def tiny_png_type [unfolded tiny_png_def, simplified])
  then have "length (map status (checks r)) = 7" by simp
  then have l: "length (checks r) = 7" by simp
  with counts_sum_to_number_of_checks [OF r] r show ?thesis by auto
qed


end
